theory Spec2Isabelle
  imports Main "HOL-Library.Word" "HOL-Library.AList"
begin

section \<open>Python values shared by both bridges\<close>

text \<open>
  Both scripts are Python. Bytes objects are lists of 8-bit words, Python integers are
  \<open>int\<close>, strings are \<open>string\<close>. A value passed to \<open>json.dumps\<close> is a \<open>json\<close> term;
  a dict keeps its insertion order, so an object is an association list.
\<close>

type_synonym byte = "8 word"

datatype json =
    JNull
  | JBool bool
  | JInt int
  | JStr string
  | JArr "json list"
  | JObj "(string \<times> json) list"

text \<open>
  An exception derived from \<open>Exception\<close>: the class decides which \<open>except\<close> clause
  takes it, \<open>str\<close> is what \<open>str(e)\<close> returns. \<open>StorageError\<close> and \<open>ReadError\<close> are
  the two classes of \<open>broadlink.exceptions\<close> each capture loop names, \<open>SocketTimeout\<close> is
  \<open>socket.timeout\<close>, \<open>ValueError\<close> is what \<open>bytes.fromhex\<close> raises, and
  \<open>OtherException\<close> stands for every other subclass of \<open>Exception\<close>.
\<close>

datatype exn_class = StorageError | ReadError | SocketTimeout | ValueError | OtherException

datatype exn = Exn (exn_class: exn_class) (str: string)

type_synonym 'a res = "exn + 'a"

subsection \<open>Decimal and hexadecimal text\<close>

definition digit_char :: "nat \<Rightarrow> char" where
  "digit_char n = ''0123456789abcdef'' ! n"

fun str_nat :: "nat \<Rightarrow> string" where
  "str_nat n = (if n < 10 then [digit_char n] else str_nat (n div 10) @ [digit_char (n mod 10)])"

fun hex_digits :: "nat \<Rightarrow> string" where
  "hex_digits n = (if n < 16 then [digit_char n] else hex_digits (n div 16) @ [digit_char (n mod 16)])"

text \<open>The built-in \<open>hex(i)\<close> of an integer.\<close>

definition py_hex :: "int \<Rightarrow> string" where
  "py_hex i = (if i < 0 then ''-0x'' else ''0x'') @ hex_digits (nat \<bar>i\<bar>)"

text \<open>\<open>format(x, '02x')\<close> for a byte \<open>x\<close>: two lowercase hexadecimal digits.\<close>

definition format_02x :: "byte \<Rightarrow> string" where
  "format_02x x = [digit_char (unat x div 16), digit_char (unat x mod 16)]"

text \<open>\<open>data.hex()\<close> of a bytes object.\<close>

definition bytes_hex :: "byte list \<Rightarrow> string" where
  "bytes_hex data = concat (map format_02x data)"

text \<open>
  \<open>str.lower()\<close>. Only the ASCII letters are mapped; the scripts compare the result
  with ASCII keywords made of letters no other character lowercases to, so the
  comparison is the same.
\<close>

definition py_lower_char :: "char \<Rightarrow> char" where
  "py_lower_char c =
     (case map_of (zip ''ABCDEFGHIJKLMNOPQRSTUVWXYZ'' ''abcdefghijklmnopqrstuvwxyz'') c of
        Some l \<Rightarrow> l
      | None \<Rightarrow> c)"

definition py_lower :: "string \<Rightarrow> string" where
  "py_lower s = map py_lower_char s"

text \<open>
  \<open>bytes.fromhex(s)\<close> as CPython implements it: ASCII whitespace before a pair of
  digits is skipped, every byte is two hexadecimal digits of either case, anything else
  (and a single trailing digit) raises \<open>ValueError\<close> with the position.
\<close>

definition py_isspace :: "char \<Rightarrow> bool" where
  "py_isspace c = (c \<in> set [CHR '' '', CHR 0x09, CHR 0x0A, CHR 0x0B, CHR 0x0C, CHR 0x0D])"

definition hex_value :: "char \<Rightarrow> nat option" where
  "hex_value c =
     map_of (zip ''0123456789abcdefABCDEF''
                 [0, 1, 2, 3, 4, 5, 6, 7, 8, 9, 10, 11, 12, 13, 14, 15, 10, 11, 12, 13, 14, 15]) c"

definition fromhex_error :: "nat \<Rightarrow> exn" where
  "fromhex_error pos =
     Exn ValueError (''non-hexadecimal number found in fromhex() arg at position '' @ str_nat pos)"

fun fromhex_at :: "nat \<Rightarrow> string \<Rightarrow> byte list res" where
  "fromhex_at pos [] = Inr []"
| "fromhex_at pos (c # cs) =
     (if py_isspace c then fromhex_at (pos + 1) cs
      else (case hex_value c of
              None \<Rightarrow> Inl (fromhex_error pos)
            | Some hi \<Rightarrow>
                (case cs of
                   [] \<Rightarrow> Inl (fromhex_error (pos + 1))
                 | d # ds \<Rightarrow>
                     (case hex_value d of
                        None \<Rightarrow> Inl (fromhex_error (pos + 1))
                      | Some lo \<Rightarrow>
                          (case fromhex_at (pos + 2) ds of
                             Inl e \<Rightarrow> Inl e
                           | Inr bs \<Rightarrow> Inr (of_nat (16 * hi + lo) # bs))))))"

text \<open>
  A string with a character beyond ASCII is refused before any digit is read, at the
  position of the first such character.
\<close>

definition is_ascii :: "char \<Rightarrow> bool" where
  "is_ascii c = ((of_char c :: nat) < 128)"

fun first_non_ascii :: "nat \<Rightarrow> string \<Rightarrow> nat option" where
  "first_non_ascii pos [] = None"
| "first_non_ascii pos (c # cs) = (if is_ascii c then first_non_ascii (pos + 1) cs else Some pos)"

definition bytes_fromhex :: "string \<Rightarrow> byte list res" where
  "bytes_fromhex s =
     (case first_non_ascii 0 s of
        Some pos \<Rightarrow> Inl (fromhex_error pos)
      | None \<Rightarrow> fromhex_at 0 s)"

subsection \<open>Effects: a trace of calls, sleeps and printed lines\<close>

text \<open>
  A statement sequence is a function from the trace so far to an outcome and the
  extended trace. It ends normally with a value (\<open>Inr\<close>) or abruptly with a signal:
  a raised exception, \<open>sys.exit(n)\<close> (\<open>SystemExit\<close> is not an \<open>Exception\<close>, so no
  \<open>except Exception\<close> clause takes it), or a \<open>return\<close> out of the enclosing function.
  \<open>Sleep\<close> counts milliseconds; \<open>Print j\<close> is \<open>print(json.dumps(j))\<close>.
\<close>

datatype 'c event = Call 'c | Sleep nat | Print json

datatype signal = Raised exn | Exited int | Returned

type_synonym ('c, 'a) prog = "'c event list \<Rightarrow> (signal + 'a) \<times> 'c event list"

definition ret :: "'a \<Rightarrow> ('c, 'a) prog" where
  "ret x tr = (Inr x, tr)"

definition bnd :: "('c, 'a) prog \<Rightarrow> ('a \<Rightarrow> ('c, 'b) prog) \<Rightarrow> ('c, 'b) prog" where
  "bnd m f tr = (case m tr of (Inl s, tr') \<Rightarrow> (Inl s, tr') | (Inr x, tr') \<Rightarrow> f x tr')"

definition lift :: "'a res \<Rightarrow> ('c, 'a) prog" where
  "lift r tr = (case r of Inl e \<Rightarrow> (Inl (Raised e), tr) | Inr x \<Rightarrow> (Inr x, tr))"

text \<open>A call on an external object that answers \<open>r\<close>.\<close>

definition call :: "'c \<Rightarrow> 'a res \<Rightarrow> ('c, 'a) prog" where
  "call c r tr = lift r (tr @ [Call c])"

text \<open>
  A call that the program may repeat: the object answers its \<open>k\<close>-th call (from 0) with
  \<open>script k\<close>, where \<open>k\<close> is the number of earlier such calls in the trace.
\<close>

definition call_idx :: "'c \<Rightarrow> (nat \<Rightarrow> 'a res) \<Rightarrow> ('c, 'a) prog" where
  "call_idx c script tr = call c (script (count_list tr (Call c))) tr"

definition print_json :: "json \<Rightarrow> ('c, unit) prog" where
  "print_json j tr = (Inr (), tr @ [Print j])"

definition sleep :: "nat \<Rightarrow> ('c, unit) prog" where
  "sleep ms tr = (Inr (), tr @ [Sleep ms])"

definition sys_exit :: "int \<Rightarrow> ('c, 'a) prog" where
  "sys_exit n tr = (Inl (Exited n), tr)"

definition py_return :: "('c, 'a) prog" where
  "py_return tr = (Inl Returned, tr)"

text \<open>\<open>try: m except (classes) as e: h e\<close>, where \<open>handles e\<close> says the clause takes \<open>e\<close>.\<close>

definition try_except_on :: "(exn \<Rightarrow> bool) \<Rightarrow> ('c, 'a) prog \<Rightarrow> (exn \<Rightarrow> ('c, 'a) prog) \<Rightarrow> ('c, 'a) prog" where
  "try_except_on handles m h tr =
     (case m tr of
        (Inl (Raised e), tr') \<Rightarrow> if handles e then h e tr' else (Inl (Raised e), tr')
      | r \<Rightarrow> r)"

text \<open>\<open>try: m except Exception as e: h e\<close>.\<close>

definition try_except :: "('c, 'a) prog \<Rightarrow> (exn \<Rightarrow> ('c, 'a) prog) \<Rightarrow> ('c, 'a) prog" where
  "try_except m h = try_except_on (\<lambda>e. True) m h"

text \<open>The body of a \<open>def\<close> without a result: a \<open>return\<close> inside it ends the call normally.\<close>

definition def_body :: "('c, unit) prog \<Rightarrow> ('c, unit) prog" where
  "def_body m tr = (case m tr of (Inl Returned, tr') \<Rightarrow> (Inr (), tr') | r \<Rightarrow> r)"

text \<open>The exit status of the process when the script's top level ends with \<open>r\<close>.\<close>

definition exit_status :: "signal + unit \<Rightarrow> int" where
  "exit_status r =
     (case r of Inr u \<Rightarrow> 0 | Inl (Exited n) \<Rightarrow> n | Inl (Raised e) \<Rightarrow> 1 | Inl Returned \<Rightarrow> 0)"

section \<open>The device bridge (\<open>broadlink_bridge.py\<close>)\<close>

text \<open>
  A device object of the \<open>broadlink\<close> library: its attributes and what each of its
  methods answers. \<open>model\<close> and \<open>name\<close> are read with \<open>getattr\<close> and a default, so
  they may be missing (\<open>None\<close>). \<open>check_frequency\<close> and \<open>check_data\<close> are polled:
  they answer by the number of the poll; \<open>check_frequency\<close> answers with the truth
  value of what it returns.
\<close>

record device =
  devtype :: int
  model :: "string option"
  name :: "string option"
  host :: "string \<times> nat"
  mac :: "byte list"
  auth :: "unit res"
  enter_learning :: "unit res"
  sweep_frequency :: "unit res"
  check_frequency :: "nat \<Rightarrow> bool res"
  cancel_sweep_frequency :: "unit res"
  find_rf_packet :: "unit res"
  check_data :: "nat \<Rightarrow> byte list res"
  send_data :: "byte list \<Rightarrow> unit res"

text \<open>
  What the script takes from outside: the built-in \<open>int(s, base)\<close>, and
  \<open>broadlink.discover\<close> and \<open>broadlink.gendevice\<close>.
\<close>

record runtime =
  py_int :: "string \<Rightarrow> nat \<Rightarrow> int res"
  broadlink_discover :: "int \<Rightarrow> device list res"
  gendevice :: "int \<Rightarrow> string \<times> nat \<Rightarrow> byte list \<Rightarrow> device res"

datatype bcall =
    Discover int
  | Auth
  | SetTimeout nat
  | EnterLearning
  | SweepFrequency
  | CheckFrequency
  | CancelSweepFrequency
  | FindRfPacket
  | CheckData
  | SendData "byte list"

definition mac_str_to_bytes :: "string \<Rightarrow> byte list res" where
  "mac_str_to_bytes mac_str =
     bytes_fromhex (filter (\<lambda>c. c \<noteq> CHR ''-'') (filter (\<lambda>c. c \<noteq> CHR '':'') mac_str))"

subsection \<open>discover\<close>

fun intercalate :: "string \<Rightarrow> string list \<Rightarrow> string" where
  "intercalate sep [] = []"
| "intercalate sep [x] = x"
| "intercalate sep (x # y # ys) = x @ sep @ intercalate sep (y # ys)"

definition device_entry :: "device \<Rightarrow> json" where
  "device_entry device =
     JObj [(''type'', JStr (py_hex (devtype device))),
           (''model'', JStr (case model device of None \<Rightarrow> ''Unknown'' | Some m \<Rightarrow> m)),
           (''host'', JStr (fst (host device))),
           (''mac'', JStr (intercalate '':'' (map format_02x (mac device)))),
           (''name'', JStr (case name device of
                              Some n \<Rightarrow> if n \<noteq> [] then n
                                        else (case model device of None \<Rightarrow> ''Broadlink Device'' | Some m \<Rightarrow> m)
                            | None \<Rightarrow> (case model device of None \<Rightarrow> ''Broadlink Device'' | Some m \<Rightarrow> m)))]"

text \<open>The \<open>for device in devices\<close> loop, with \<open>result\<close> as its accumulator.\<close>

fun discover_loop :: "device list \<Rightarrow> json list \<Rightarrow> (bcall, json list) prog" where
  "discover_loop [] result = ret result"
| "discover_loop (device # devices) result =
     bnd (try_except
            (bnd (call Auth (auth device)) (\<lambda>u. ret (result @ [device_entry device])))
            (\<lambda>e. ret result))
         (\<lambda>result'. discover_loop devices result')"

definition discover :: "runtime \<Rightarrow> int \<Rightarrow> (bcall, unit) prog" where
  "discover R timeout =
     def_body (try_except
       (bnd (call (Discover timeout) (broadlink_discover R timeout)) (\<lambda>devices.
        bnd (discover_loop devices []) (\<lambda>result.
        print_json (JArr result))))
       (\<lambda>e. bnd (print_json (JObj [(''error'', JStr (str e))])) (\<lambda>u. sys_exit 1)))"

subsection \<open>learn\<close>

text \<open>
  The three lines every command starts with: the device type is parsed in base 16
  when it starts with \<open>0x\<close> and in base 10 otherwise, the hardware address is decoded,
  and \<open>broadlink.gendevice\<close> builds the object for port 80.
\<close>

definition make_device :: "runtime \<Rightarrow> string \<Rightarrow> string \<Rightarrow> string \<Rightarrow> device res" where
  "make_device R host_str mac_str devtype_str =
     (case (if take 2 devtype_str = ''0x'' then py_int R devtype_str 16 else py_int R devtype_str 10) of
        Inl e \<Rightarrow> Inl e
      | Inr devtype_int \<Rightarrow>
          (case mac_str_to_bytes mac_str of
             Inl e \<Rightarrow> Inl e
           | Inr mac_bytes \<Rightarrow> gendevice R devtype_int (host_str, 80) mac_bytes))"

text \<open>
  The frequency loop: up to \<open>n\<close> rounds of one second's sleep and
  \<open>check_frequency\<close>; the result is \<open>found\<close>.
\<close>

fun seek_frequency :: "nat \<Rightarrow> device \<Rightarrow> (bcall, bool) prog" where
  "seek_frequency 0 device = ret False"
| "seek_frequency (Suc n) device =
     bnd (sleep 1000) (\<lambda>u.
     bnd (call_idx CheckFrequency (check_frequency device)) (\<lambda>freq.
     if freq then ret True else seek_frequency n device))"

text \<open>The only exceptions a capture loop takes as "no data yet".\<close>

definition not_ready :: "exn \<Rightarrow> bool" where
  "not_ready e = (exn_class e = StorageError \<or> exn_class e = ReadError)"

text \<open>
  The capture loop, written twice in the source with the same body (after
  \<open>find_rf_packet\<close> and after \<open>enter_learning\<close>): up to \<open>n\<close> rounds of one second's
  sleep and \<open>check_data\<close>. Non-empty data is printed as hexadecimal text and the
  function returns; \<open>StorageError\<close> and \<open>ReadError\<close> and empty data go to the next
  round; any other exception leaves the loop.
\<close>

fun poll_data :: "nat \<Rightarrow> device \<Rightarrow> (bcall, unit) prog" where
  "poll_data 0 device = ret ()"
| "poll_data (Suc n) device =
     bnd (sleep 1000) (\<lambda>u.
     bnd (try_except_on not_ready
            (bnd (call_idx CheckData (check_data device)) (\<lambda>data.
             if data \<noteq> [] then
               bnd (print_json (JObj [(''code'', JStr (bytes_hex data))])) (\<lambda>u. py_return)
             else ret ()))
            (\<lambda>e. ret ())) (\<lambda>u.
     poll_data n device))"

definition learn :: "runtime \<Rightarrow> string \<Rightarrow> string \<Rightarrow> string \<Rightarrow> string \<Rightarrow> (bcall, unit) prog" where
  "learn R host_str mac_str devtype_str signal_type =
     def_body (try_except
       (bnd (lift (make_device R host_str mac_str devtype_str)) (\<lambda>device.
        bnd (call Auth (auth device)) (\<lambda>u.
        if py_lower signal_type = ''rf'' then
          bnd (call SweepFrequency (sweep_frequency device)) (\<lambda>u.
          bnd (seek_frequency 30 device) (\<lambda>found.
          bnd (if \<not> found then
                 bnd (print_json (JObj [(''error'', JStr ''No RF frequency found'')])) (\<lambda>u.
                 bnd (call CancelSweepFrequency (cancel_sweep_frequency device)) (\<lambda>u.
                 sys_exit 1))
               else ret ()) (\<lambda>u.
          bnd (call FindRfPacket (find_rf_packet device)) (\<lambda>u.
          bnd (poll_data 30 device) (\<lambda>u.
          bnd (print_json (JObj [(''error'', JStr ''RF learning timeout'')])) (\<lambda>u.
          sys_exit 1))))))
        else
          bnd (call EnterLearning (enter_learning device)) (\<lambda>u.
          bnd (poll_data 30 device) (\<lambda>u.
          bnd (print_json (JObj [(''error'', JStr ''IR learning timeout'')])) (\<lambda>u.
          sys_exit 1))))))
       (\<lambda>e. bnd (print_json (JObj [(''error'', JStr (str e))])) (\<lambda>u. sys_exit 1)))"

subsection \<open>send and test\<close>

definition send :: "runtime \<Rightarrow> string \<Rightarrow> string \<Rightarrow> string \<Rightarrow> string \<Rightarrow> (bcall, unit) prog" where
  "send R host_str mac_str devtype_str code =
     def_body (try_except
       (bnd (lift (make_device R host_str mac_str devtype_str)) (\<lambda>device.
        bnd (call Auth (auth device)) (\<lambda>u.
        bnd (lift (bytes_fromhex code)) (\<lambda>code_bytes.
        bnd (call (SendData code_bytes) (send_data device code_bytes)) (\<lambda>u.
        print_json (JObj [(''success'', JBool True)]))))))
       (\<lambda>e. bnd (print_json (JObj [(''success'', JBool False), (''error'', JStr (str e))])) (\<lambda>u.
            sys_exit 1)))"

text \<open>
  \<open>test\<close> has two clauses: \<open>except socket.timeout\<close> first, \<open>except Exception\<close> for
  what the first does not take. Neither calls \<open>sys.exit\<close>. \<open>device.timeout = 5\<close> is
  recorded as \<open>SetTimeout 5\<close>.
\<close>

definition test :: "runtime \<Rightarrow> string \<Rightarrow> string \<Rightarrow> string \<Rightarrow> (bcall, unit) prog" where
  "test R host_str mac_str devtype_str =
     def_body (try_except
       (bnd (lift (make_device R host_str mac_str devtype_str)) (\<lambda>device.
        bnd (call (SetTimeout 5) (Inr ())) (\<lambda>u.
        bnd (call Auth (auth device)) (\<lambda>u.
        print_json (JObj [(''online'', JBool True)])))))
       (\<lambda>e. if exn_class e = SocketTimeout then print_json (JObj [(''online'', JBool False)])
            else print_json (JObj [(''online'', JBool False), (''error'', JStr (str e))])))"

subsection \<open>main\<close>

text \<open>
  \<open>argv\<close> is \<open>sys.argv\<close>; every index read is guarded by a length test in the source.
  \<open>int(sys.argv[2])\<close> for \<open>discover\<close> is outside any \<open>try\<close>, so its exception
  leaves \<open>main\<close>.
\<close>

definition usage_error :: "string \<Rightarrow> (bcall, unit) prog" where
  "usage_error text = bnd (print_json (JObj [(''error'', JStr text)])) (\<lambda>u. sys_exit 1)"

definition main :: "runtime \<Rightarrow> string list \<Rightarrow> (bcall, unit) prog" where
  "main R argv =
     (if length argv < 2 then usage_error ''Usage: broadlink_bridge.py <command> [args...]''
      else
        let command = py_lower (argv ! 1) in
        if command = ''discover'' then
          bnd (if length argv > 2 then lift (py_int R (argv ! 2) 10) else ret 5) (\<lambda>timeout.
          discover R timeout)
        else if command = ''learn'' then
          (if length argv < 5 then usage_error ''Usage: learn <host> <mac> <devtype> [ir|rf]''
           else learn R (argv ! 2) (argv ! 3) (argv ! 4) (if length argv > 5 then argv ! 5 else ''ir''))
        else if command = ''send'' then
          (if length argv < 6 then usage_error ''Usage: send <host> <mac> <devtype> <code>''
           else send R (argv ! 2) (argv ! 3) (argv ! 4) (argv ! 5))
        else if command = ''test'' then
          (if length argv < 5 then usage_error ''Usage: test <host> <mac> <devtype>''
           else test R (argv ! 2) (argv ! 3) (argv ! 4))
        else usage_error (''Unknown command: '' @ command))"

section \<open>The presentation bridge (\<open>impress_controller.py\<close>)\<close>

text \<open>
  What LibreOffice, the file system and the process table answer. Every UNO method
  answers by the number of the call, so that repeated reads may differ and any of them
  may raise. A method that returns an object or \<open>None\<close> answers \<open>True\<close> for an object
  (a UNO proxy is truthy) and \<open>False\<close> for \<open>None\<close>. \<open>resolve\<close> is the three UNO calls
  of \<open>get_uno_context\<close>, \<open>createDesktop\<close> the one of \<open>get_desktop\<close>,
  \<open>getDrawPagesCount\<close> is \<open>doc.getDrawPages().getCount()\<close>, \<open>popen\<close> is
  \<open>subprocess.Popen\<close>, and \<open>files\<close> holds the paths that exist.
\<close>

record office =
  HAS_UNO :: bool
  resolve :: "nat \<Rightarrow> unit res"
  createDesktop :: "nat \<Rightarrow> unit res"
  getCurrentComponent :: "nat \<Rightarrow> bool res"
  getDrawPagesCount :: "nat \<Rightarrow> int res"
  getPresentation :: "nat \<Rightarrow> bool res"
  isRunning :: "nat \<Rightarrow> bool res"
  getController :: "nat \<Rightarrow> bool res"
  getCurrentSlideIndex :: "nat \<Rightarrow> int res"
  isPaused :: "nat \<Rightarrow> bool res"
  presentation_start :: "nat \<Rightarrow> unit res"
  presentation_end :: "nat \<Rightarrow> unit res"
  gotoSlideIndex :: "int \<Rightarrow> nat \<Rightarrow> unit res"
  gotoNextSlide :: "nat \<Rightarrow> unit res"
  gotoPreviousSlide :: "nat \<Rightarrow> unit res"
  blankScreen :: "nat \<Rightarrow> nat \<Rightarrow> unit res"
  resume :: "nat \<Rightarrow> unit res"
  loadComponentFromURL :: "string \<Rightarrow> nat \<Rightarrow> unit res"
  files :: "string \<Rightarrow> bool"
  popen :: "string list \<Rightarrow> nat \<Rightarrow> unit res"

datatype ucall =
    Resolve
  | CreateDesktop
  | GetCurrentComponent
  | GetDrawPagesCount
  | GetPresentation
  | IsRunning
  | GetController
  | GetCurrentSlideIndex
  | IsPaused
  | PresentationStart
  | PresentationEnd
  | GotoSlideIndex int
  | GotoNextSlide
  | GotoPreviousSlide
  | BlankScreen nat
  | Resume
  | LoadComponentFromURL string
  | PathExists string
  | Popen "string list"

text \<open>
  One parsed input line, with the fields the commands read, each of the JSON type the
  script's header documents. \<open>None\<close> is a missing key.
\<close>

record cmd_data =
  command :: "string option"
  file_path :: "string option"
  from_slide :: "int option"
  slide_number :: "int option"

text \<open>\<open>d.get(key, default)\<close>.\<close>

definition dict_get :: "'a option \<Rightarrow> 'a \<Rightarrow> 'a" where
  "dict_get v dflt = (case v of None \<Rightarrow> dflt | Some x \<Rightarrow> x)"

definition UNO_PORT :: nat where
  "UNO_PORT = 2002"

text \<open>\<open>os.path.exists\<close>: the empty path never exists.\<close>

definition path_exists :: "office \<Rightarrow> string \<Rightarrow> bool" where
  "path_exists W path = (path \<noteq> [] \<and> files W path)"

definition os_path_exists :: "office \<Rightarrow> string \<Rightarrow> (ucall, bool) prog" where
  "os_path_exists W path = call (PathExists path) (Inr (path_exists W path))"

definition get_uno_context :: "office \<Rightarrow> (ucall, bool) prog" where
  "get_uno_context W =
     (if \<not> HAS_UNO W then ret False
      else try_except (bnd (call_idx Resolve (resolve W)) (\<lambda>u. ret True)) (\<lambda>e. ret False))"

definition get_desktop :: "office \<Rightarrow> (ucall, unit) prog" where
  "get_desktop W = call_idx CreateDesktop (createDesktop W)"

definition get_slideshow_controller :: "office \<Rightarrow> (ucall, bool) prog" where
  "get_slideshow_controller W =
     try_except
       (bnd (call_idx GetCurrentComponent (getCurrentComponent W)) (\<lambda>doc.
        if \<not> doc then ret False
        else
          bnd (call_idx GetPresentation (getPresentation W)) (\<lambda>presentation.
          if \<not> presentation then ret False
          else
            bnd (call_idx IsRunning (isRunning W)) (\<lambda>running.
            if \<not> running then ret False
            else call_idx GetController (getController W)))))
       (\<lambda>e. ret False)"

definition get_presentation :: "office \<Rightarrow> (ucall, bool) prog" where
  "get_presentation W =
     try_except
       (bnd (call_idx GetCurrentComponent (getCurrentComponent W)) (\<lambda>doc.
        if \<not> doc then ret False
        else call_idx GetPresentation (getPresentation W)))
       (\<lambda>e. ret False)"

text \<open>
  \<open>respond(success, error=None, **kwargs)\<close>: the error is added when it is a
  non-empty string, then the keyword arguments update the dict.
\<close>

definition respond :: "bool \<Rightarrow> string option \<Rightarrow> (string \<times> json) list \<Rightarrow> (ucall, unit) prog" where
  "respond success error kwargs =
     print_json (JObj (fold (\<lambda>(k, v). AList.update k v) kwargs
       ([(''success'', JBool success)] @
        (case error of None \<Rightarrow> [] | Some e \<Rightarrow> if e \<noteq> [] then [(''error'', JStr e)] else []))))"

definition launch_libreoffice_with_socket :: "office \<Rightarrow> string option \<Rightarrow> (ucall, bool) prog" where
  "launch_libreoffice_with_socket W file_path_arg =
     (let cmd = [''soffice'', ''--impress'',
                 ''--accept=socket,host=localhost,port='' @ str_nat UNO_PORT @ '';urp;''] @
                (case file_path_arg of None \<Rightarrow> [] | Some p \<Rightarrow> if p \<noteq> [] then [p] else [])
      in try_except (bnd (call_idx (Popen cmd) (popen W cmd)) (\<lambda>u. ret True)) (\<lambda>e. ret False))"

subsection \<open>The branches of \<open>handle_command\<close>\<close>

definition handle_open :: "office \<Rightarrow> cmd_data \<Rightarrow> (ucall, unit) prog" where
  "handle_open W d =
     (let path = dict_get (file_path d) [] in
      bnd (os_path_exists W path) (\<lambda>exists.
      if \<not> exists then
        bnd (respond False (Some (''File not found: '' @ path)) []) (\<lambda>u. py_return)
      else
        bnd (get_uno_context W) (\<lambda>ctx.
        if \<not> ctx then
          bnd (launch_libreoffice_with_socket W (Some path)) (\<lambda>launched.
          bnd (if launched then respond True None []
               else respond False (Some ''Failed to launch LibreOffice'') []) (\<lambda>u.
          py_return))
        else
          bnd (try_except
                 (bnd (get_desktop W) (\<lambda>desktop.
                  bnd (call_idx (LoadComponentFromURL (''file://'' @ path))
                         (loadComponentFromURL W (''file://'' @ path))) (\<lambda>u.
                  respond True None [])))
                 (\<lambda>e. respond False (Some (str e)) [])) (\<lambda>u.
          py_return))))"

definition handle_start_slideshow :: "office \<Rightarrow> cmd_data \<Rightarrow> (ucall, unit) prog" where
  "handle_start_slideshow W d =
     try_except
       (bnd (get_presentation W) (\<lambda>presentation.
        if \<not> presentation then
          bnd (respond False (Some ''No presentation document open'') []) (\<lambda>u. py_return)
        else
          bnd (case from_slide d of
                 Some n \<Rightarrow>
                   bnd (call_idx PresentationStart (presentation_start W)) (\<lambda>u.
                   bnd (sleep 500) (\<lambda>u.
                   bnd (get_slideshow_controller W) (\<lambda>controller.
                   if controller then call_idx (GotoSlideIndex (n - 1)) (gotoSlideIndex W (n - 1))
                   else ret ())))
               | None \<Rightarrow> call_idx PresentationStart (presentation_start W)) (\<lambda>u.
          respond True None [])))
       (\<lambda>e. respond False (Some (str e)) [])"

definition handle_stop_slideshow :: "office \<Rightarrow> (ucall, unit) prog" where
  "handle_stop_slideshow W =
     try_except
       (bnd (get_presentation W) (\<lambda>presentation.
        bnd (if presentation then
               bnd (call_idx IsRunning (isRunning W)) (\<lambda>running.
               if running then call_idx PresentationEnd (presentation_end W) else ret ())
             else ret ()) (\<lambda>u.
        respond True None [])))
       (\<lambda>e. respond False (Some (str e)) [])"

text \<open>
  \<open>next\<close>, \<open>previous\<close>, \<open>goto_slide\<close>, \<open>blank_screen\<close>, \<open>white_screen\<close> and
  \<open>unblank\<close> have one shape: the controller, or "No slideshow active", then one call.
\<close>

definition with_controller :: "office \<Rightarrow> (ucall, unit) prog \<Rightarrow> (ucall, unit) prog" where
  "with_controller W action =
     try_except
       (bnd (get_slideshow_controller W) (\<lambda>controller.
        if \<not> controller then
          bnd (respond False (Some ''No slideshow active'') []) (\<lambda>u. py_return)
        else bnd action (\<lambda>u. respond True None [])))
       (\<lambda>e. respond False (Some (str e)) [])"

definition json_of_int_option :: "int option \<Rightarrow> json" where
  "json_of_int_option v = (case v of None \<Rightarrow> JNull | Some i \<Rightarrow> JInt i)"

definition status_data :: "bool \<Rightarrow> int option \<Rightarrow> int option \<Rightarrow> bool \<Rightarrow> json" where
  "status_data slideshow_active current_slide total_slides blanked =
     JObj [(''slideshow_active'', JBool slideshow_active),
           (''current_slide'', json_of_int_option current_slide),
           (''total_slides'', json_of_int_option total_slides),
           (''blanked'', JBool blanked)]"

text \<open>
  \<open>get_status\<close>. The four locals start as \<open>False\<close>, \<open>None\<close>, \<open>None\<close>, \<open>False\<close>; the
  inner block yields (\<open>slideshow_active\<close>, \<open>current_slide\<close>, \<open>total_slides\<close>,
  \<open>blanked\<close>). Only the page count has a \<open>try\<close> of its own.
\<close>

definition handle_get_status :: "office \<Rightarrow> (ucall, unit) prog" where
  "handle_get_status W =
     try_except
       (bnd (call_idx GetCurrentComponent (getCurrentComponent W)) (\<lambda>doc.
        bnd (if doc then
               bnd (try_except
                      (bnd (call_idx GetDrawPagesCount (getDrawPagesCount W)) (\<lambda>n. ret (Some n)))
                      (\<lambda>e. ret None)) (\<lambda>total_slides.
               bnd (get_presentation W) (\<lambda>presentation.
               bnd (if presentation then call_idx IsRunning (isRunning W) else ret False) (\<lambda>running.
               if running then
                 bnd (get_slideshow_controller W) (\<lambda>controller.
                 if controller then
                   bnd (call_idx GetCurrentSlideIndex (getCurrentSlideIndex W)) (\<lambda>i.
                   bnd (call_idx IsPaused (isPaused W)) (\<lambda>blanked.
                   ret (True, Some (i + 1), total_slides, blanked)))
                 else ret (True, None, total_slides, False))
               else ret (False, None, total_slides, False))))
             else ret (False, None, None, False))
          (\<lambda>(slideshow_active, current_slide, total_slides, blanked).
             respond True None
               [(''data'', status_data slideshow_active current_slide total_slides blanked)])))
       (\<lambda>e. respond False (Some (str e)) [])"

definition handle_command :: "office \<Rightarrow> cmd_data \<Rightarrow> (ucall, unit) prog" where
  "handle_command W d =
     def_body
       (let cmd = dict_get (command d) [] in
        if cmd = ''quit'' then bnd (respond True None []) (\<lambda>u. sys_exit 0)
        else if cmd = ''is_running'' then
          bnd (get_uno_context W) (\<lambda>ctx.
          bnd (respond True None [(''running'', JBool ctx)]) (\<lambda>u. py_return))
        else if cmd = ''open'' then handle_open W d
        else
          bnd (get_uno_context W) (\<lambda>ctx.
          if \<not> ctx then
            bnd (respond False (Some ''LibreOffice is not running or UNO socket not available'') [])
              (\<lambda>u. py_return)
          else
            bnd (get_desktop W) (\<lambda>desktop.
            if cmd = ''start_slideshow'' then handle_start_slideshow W d
            else if cmd = ''stop_slideshow'' then handle_stop_slideshow W
            else if cmd = ''next'' then
              with_controller W (call_idx GotoNextSlide (gotoNextSlide W))
            else if cmd = ''previous'' then
              with_controller W (call_idx GotoPreviousSlide (gotoPreviousSlide W))
            else if cmd = ''goto_slide'' then
              with_controller W
                (let n = dict_get (slide_number d) 1
                 in call_idx (GotoSlideIndex (n - 1)) (gotoSlideIndex W (n - 1)))
            else if cmd = ''blank_screen'' then
              with_controller W (call_idx (BlankScreen 0x000000) (blankScreen W 0x000000))
            else if cmd = ''white_screen'' then
              with_controller W (call_idx (BlankScreen 0xFFFFFF) (blankScreen W 0xFFFFFF))
            else if cmd = ''unblank'' then with_controller W (call_idx Resume (resume W))
            else if cmd = ''get_status'' then handle_get_status W
            else respond False (Some (''Unknown command: '' @ cmd)) [])))"

section \<open>Notions the statements use\<close>

text \<open>A poll after which the capture loop goes on: a recognised exception or empty data.\<close>

definition keeps_polling :: "byte list res \<Rightarrow> bool" where
  "keeps_polling r = (case r of Inl e \<Rightarrow> not_ready e | Inr data \<Rightarrow> data = [])"

text \<open>The trace of \<open>n\<close> rounds of the capture loop and of the frequency loop.\<close>

definition capture_polls :: "nat \<Rightarrow> bcall event list" where
  "capture_polls n = concat (replicate n [Sleep 1000, Call CheckData])"

definition frequency_polls :: "nat \<Rightarrow> bcall event list" where
  "frequency_polls n = concat (replicate n [Sleep 1000, Call CheckFrequency])"

text \<open>
  The device starts the sweep, reports no frequency on polls \<open>0..j-1\<close> and one on
  poll \<open>j\<close>, within the 30 rounds, and then accepts \<open>find_rf_packet\<close>.
\<close>

definition frequency_found :: "device \<Rightarrow> nat \<Rightarrow> bool" where
  "frequency_found dev j =
     (sweep_frequency dev = Inr () \<and> j < 30 \<and> (\<forall>i<j. check_frequency dev i = Inr False) \<and>
      check_frequency dev j = Inr True \<and> find_rf_packet dev = Inr ())"

text \<open>\<open>a\<close> occurs in \<open>xs\<close> before the first \<open>b\<close>.\<close>

definition occurs_before :: "'a \<Rightarrow> 'a \<Rightarrow> 'a list \<Rightarrow> bool" where
  "occurs_before a b xs = (a \<in> set (takeWhile (\<lambda>x. x \<noteq> b) xs))"

text \<open>The lines a run has printed, in order.\<close>

definition printed :: "'c event list \<Rightarrow> json list" where
  "printed tr = concat (map (\<lambda>ev. case ev of Print j \<Rightarrow> [j] | Call c \<Rightarrow> [] | Sleep ms \<Rightarrow> []) tr)"

text \<open>
  The two shapes of a \<open>get_status\<close> response: success with the data record, and
  failure with \<open>str(e)\<close> as the error, which \<open>respond\<close> leaves out when it is empty.
\<close>

definition status_success :: "bool \<Rightarrow> int option \<Rightarrow> int option \<Rightarrow> bool \<Rightarrow> json" where
  "status_success slideshow_active current_slide total_slides blanked =
     JObj [(''success'', JBool True),
           (''data'', status_data slideshow_active current_slide total_slides blanked)]"

definition status_failure :: "exn \<Rightarrow> json" where
  "status_failure e =
     JObj ((''success'', JBool False) # (if str e \<noteq> [] then [(''error'', JStr (str e))] else []))"

section \<open>Example inputs\<close>

text \<open>
  A device that accepts every request and never has data or a frequency; a remote that
  reports a frequency on the second poll and a three-byte code on the third; a device
  that has a frequency at once, no data on the first capture poll and an error that is
  not transient on the second; and a runtime whose \<open>gendevice\<close> and \<open>discover\<close> give one fixed device.
\<close>

definition quiet_device :: device where
  "quiet_device =
     \<lparr>devtype = 0x2737, model = Some ''RM4 mini'', name = Some ''Hall'',
      host = (''192.168.1.20'', 80), mac = [0xa0, 0x43, 0xb0, 0x11, 0x22, 0x33],
      auth = Inr (), enter_learning = Inr (), sweep_frequency = Inr (),
      check_frequency = (\<lambda>k. Inr False), cancel_sweep_frequency = Inr (),
      find_rf_packet = Inr (),
      check_data = (\<lambda>k. Inl (Exn StorageError ''The storage is full'')),
      send_data = (\<lambda>b. Inr ())\<rparr>"

definition remote_device :: device where
  "remote_device =
     quiet_device
       \<lparr>check_frequency := (\<lambda>k. Inr (1 \<le> k)),
        check_data := (\<lambda>k. if k < 2 then Inl (Exn ReadError ''Read error'') else Inr [0x26, 0x00, 0xd2])\<rparr>"

definition faulty_device :: device where
  "faulty_device =
     quiet_device
       \<lparr>check_frequency := (\<lambda>k. Inr True),
        check_data := (\<lambda>k. if k < 1 then Inr [] else Inl (Exn OtherException ''Device is offline''))\<rparr>"

definition fixed_runtime :: "device \<Rightarrow> runtime" where
  "fixed_runtime dev =
     \<lparr>py_int = (\<lambda>s base. Inr 0x2737), broadlink_discover = (\<lambda>t. Inr [dev]),
      gendevice = (\<lambda>t h m. Inr dev)\<rparr>"

text \<open>A network with two devices, the first of which refuses the handshake.\<close>

definition mixed_runtime :: runtime where
  "mixed_runtime =
     (fixed_runtime quiet_device)
       \<lparr>broadlink_discover :=
          (\<lambda>t. Inr [remote_device\<lparr>auth := Inl (Exn OtherException ''Authentication failed'')\<rparr>,
                    quiet_device])\<rparr>"

text \<open>
  LibreOffice with a twelve-page presentation open and its slideshow running on the
  third page; and one file on disk.
\<close>

definition stage_office :: office where
  "stage_office =
     \<lparr>HAS_UNO = True, resolve = (\<lambda>k. Inr ()), createDesktop = (\<lambda>k. Inr ()),
      getCurrentComponent = (\<lambda>k. Inr True), getDrawPagesCount = (\<lambda>k. Inr 12),
      getPresentation = (\<lambda>k. Inr True), isRunning = (\<lambda>k. Inr True),
      getController = (\<lambda>k. Inr True), getCurrentSlideIndex = (\<lambda>k. Inr 2),
      isPaused = (\<lambda>k. Inr False), presentation_start = (\<lambda>k. Inr ()),
      presentation_end = (\<lambda>k. Inr ()), gotoSlideIndex = (\<lambda>i k. Inr ()),
      gotoNextSlide = (\<lambda>k. Inr ()), gotoPreviousSlide = (\<lambda>k. Inr ()),
      blankScreen = (\<lambda>c k. Inr ()), resume = (\<lambda>k. Inr ()),
      loadComponentFromURL = (\<lambda>url k. Inr ()),
      files = (\<lambda>p. p = ''/home/user/sermon.odp''), popen = (\<lambda>cmd k. Inr ())\<rparr>"

definition status_request :: cmd_data where
  "status_request =
     \<lparr>command = Some ''get_status'', file_path = None, from_slide = None, slide_number = None\<rparr>"

definition open_request :: "string \<Rightarrow> cmd_data" where
  "open_request path =
     \<lparr>command = Some ''open'', file_path = Some path, from_slide = None, slide_number = None\<rparr>"

text \<open>
  The same stage with a slideshow controller that fails on the position read; with a
  document that cannot count its pages; and with no UNO socket to connect to.
\<close>

definition broken_office :: office where
  "broken_office =
     stage_office\<lparr>getCurrentSlideIndex := (\<lambda>k. Inl (Exn OtherException ''Object disposed''))\<rparr>"

definition uncounted_office :: office where
  "uncounted_office =
     stage_office\<lparr>getDrawPagesCount := (\<lambda>k. Inl (Exn OtherException ''getDrawPages''))\<rparr>"

definition offline_office :: office where
  "offline_office =
     stage_office\<lparr>resolve := (\<lambda>k. Inl (Exn OtherException ''Connector : could not connect to socket''))\<rparr>"


section \<open>Proofs\<close>

lemmas prog_defs = ret_def bnd_def lift_def call_def call_idx_def print_json_def sleep_def
  sys_exit_def py_return_def try_except_on_def try_except_def def_body_def

lemma poll_data_skip:
  "(\<forall>i<a. keeps_polling (check_data dev (c + i))) \<Longrightarrow> count_list tr (Call CheckData) = c \<Longrightarrow>
   poll_data (a + b) dev tr = poll_data b dev (tr @ capture_polls a)"
proof (induction a arbitrary: tr c)
  case 0
  then show ?case by (simp add: capture_polls_def)
next
  case (Suc a)
  have k0: "keeps_polling (check_data dev c)" using Suc.prems(1) by force
  have rest: "\<forall>i<a. keeps_polling (check_data dev (Suc c + i))" using Suc.prems(1) by force
  have cnt: "count_list (tr @ [Sleep 1000, Call CheckData]) (Call CheckData) = Suc c"
    using Suc.prems(2) by simp
  have step: "poll_data (Suc (a + b)) dev tr = poll_data (a + b) dev (tr @ [Sleep 1000, Call CheckData])"
    using k0 Suc.prems(2)
    by (auto simp: prog_defs keeps_polling_def split: sum.splits)
  show ?case
    using Suc.IH [OF rest cnt] step by (simp add: capture_polls_def)
qed

lemma seek_frequency_skip:
  "(\<forall>i<a. check_frequency dev (c + i) = Inr False) \<Longrightarrow> count_list tr (Call CheckFrequency) = c \<Longrightarrow>
   seek_frequency (a + b) dev tr = seek_frequency b dev (tr @ frequency_polls a)"
proof (induction a arbitrary: tr c)
  case 0
  then show ?case by (simp add: frequency_polls_def)
next
  case (Suc a)
  have k0: "check_frequency dev c = Inr False" using Suc.prems(1) by force
  have rest: "\<forall>i<a. check_frequency dev (Suc c + i) = Inr False" using Suc.prems(1) by force
  have cnt: "count_list (tr @ [Sleep 1000, Call CheckFrequency]) (Call CheckFrequency) = Suc c"
    using Suc.prems(2) by simp
  have step: "seek_frequency (Suc (a + b)) dev tr = seek_frequency (a + b) dev (tr @ [Sleep 1000, Call CheckFrequency])"
    using k0 Suc.prems(2)
    by (auto simp: prog_defs split: sum.splits)
  show ?case
    using Suc.IH [OF rest cnt] step by (simp add: frequency_polls_def)
qed

lemma count_capture_polls [simp]: "count_list (capture_polls n) (Call CheckData) = n"
  by (induction n) (simp_all add: capture_polls_def)

lemma count_frequency_polls [simp]: "count_list (frequency_polls n) (Call CheckFrequency) = n"
  by (induction n) (simp_all add: frequency_polls_def)

lemma count_capture_polls_other [simp]: "count_list (frequency_polls n) (Call CheckData) = 0"
  by (induction n) (simp_all add: frequency_polls_def)

lemma capture_polls_Suc: "capture_polls (Suc n) = capture_polls n @ [Sleep 1000, Call CheckData]"
  by (induction n) (simp_all add: capture_polls_def)

lemma frequency_polls_Suc: "frequency_polls (Suc n) = frequency_polls n @ [Sleep 1000, Call CheckFrequency]"
  by (induction n) (simp_all add: frequency_polls_def)

lemma poll_data_exhaust:
  assumes "\<forall>i<n. keeps_polling (check_data dev (c + i))" and "count_list tr (Call CheckData) = c"
  shows "poll_data n dev tr = (Inr (), tr @ capture_polls n)"
  using poll_data_skip [OF assms, of 0] by (simp add: ret_def)

lemma poll_data_hit:
  assumes "\<forall>i<k. keeps_polling (check_data dev (c + i))" and "count_list tr (Call CheckData) = c"
    and "check_data dev (c + k) = Inr payload" and "payload \<noteq> []"
  shows "poll_data (k + Suc b) dev tr =
         (Inl Returned, tr @ capture_polls (Suc k) @ [Print (JObj [(''code'', JStr (bytes_hex payload))])])"
proof -
  have "poll_data (k + Suc b) dev tr = poll_data (Suc b) dev (tr @ capture_polls k)"
    by (rule poll_data_skip [OF assms(1,2)])
  also have "\<dots> = (Inl Returned, (tr @ capture_polls k) @ [Sleep 1000, Call CheckData,
                      Print (JObj [(''code'', JStr (bytes_hex payload))])])"
    using assms(2,3,4) by (simp add: prog_defs)
  finally show ?thesis by (simp add: capture_polls_Suc)
qed

lemma poll_data_abort:
  assumes "\<forall>i<k. keeps_polling (check_data dev (c + i))" and "count_list tr (Call CheckData) = c"
    and "check_data dev (c + k) = Inl e" and "\<not> not_ready e"
  shows "poll_data (k + Suc b) dev tr = (Inl (Raised e), tr @ capture_polls (Suc k))"
proof -
  have "poll_data (k + Suc b) dev tr = poll_data (Suc b) dev (tr @ capture_polls k)"
    by (rule poll_data_skip [OF assms(1,2)])
  also have "\<dots> = (Inl (Raised e), (tr @ capture_polls k) @ [Sleep 1000, Call CheckData])"
    using assms(2,3,4) by (simp add: prog_defs)
  finally show ?thesis by (simp add: capture_polls_Suc)
qed

lemma seek_frequency_exhaust:
  assumes "\<forall>i<n. check_frequency dev (c + i) = Inr False" and "count_list tr (Call CheckFrequency) = c"
  shows "seek_frequency n dev tr = (Inr False, tr @ frequency_polls n)"
  using seek_frequency_skip [OF assms, of 0] by (simp add: ret_def)

lemma seek_frequency_found:
  assumes "\<forall>i<j. check_frequency dev (c + i) = Inr False" and "count_list tr (Call CheckFrequency) = c"
    and "check_frequency dev (c + j) = Inr True"
  shows "seek_frequency (j + Suc b) dev tr = (Inr True, tr @ frequency_polls (Suc j))"
proof -
  have "seek_frequency (j + Suc b) dev tr = seek_frequency (Suc b) dev (tr @ frequency_polls j)"
    by (rule seek_frequency_skip [OF assms(1,2)])
  also have "\<dots> = (Inr True, (tr @ frequency_polls j) @ [Sleep 1000, Call CheckFrequency])"
    using assms(2,3) by (simp add: prog_defs)
  finally show ?thesis by (simp add: frequency_polls_Suc)
qed

text \<open>\<open>learn\<close> up to the capture loop.\<close>

lemma learn_ir_unfold:
  assumes "make_device R h m d = Inr dev" and "auth dev = Inr ()" and "py_lower st \<noteq> ''rf''"
    and "enter_learning dev = Inr ()"
  shows "learn R h m d st [] =
     def_body (try_except
       (bnd (poll_data 30 dev) (\<lambda>u.
          bnd (print_json (JObj [(''error'', JStr ''IR learning timeout'')])) (\<lambda>u. sys_exit 1)))
       (\<lambda>e. bnd (print_json (JObj [(''error'', JStr (str e))])) (\<lambda>u. sys_exit 1)))
       [Call Auth, Call EnterLearning]"
  using assms by (simp add: learn_def prog_defs)

lemma learn_rf_unfold:
  assumes "make_device R h m d = Inr dev" and "auth dev = Inr ()" and "py_lower st = ''rf''"
    and "sweep_frequency dev = Inr ()"
    and "seek_frequency 30 dev [Call Auth, Call SweepFrequency] = (Inr True, tr)"
    and "find_rf_packet dev = Inr ()"
  shows "learn R h m d st [] =
     def_body (try_except
       (bnd (poll_data 30 dev) (\<lambda>u.
          bnd (print_json (JObj [(''error'', JStr ''RF learning timeout'')])) (\<lambda>u. sys_exit 1)))
       (\<lambda>e. bnd (print_json (JObj [(''error'', JStr (str e))])) (\<lambda>u. sys_exit 1)))
       (tr @ [Call FindRfPacket])"
  using assms by (simp add: learn_def prog_defs)

lemma not_ready_keeps: "\<exists>e. r = Inl e \<and> not_ready e \<Longrightarrow> keeps_polling r"
  by (auto simp: keeps_polling_def)

lemma capture_finish_hit:
  assumes "poll_data 30 dev tr = (Inl Returned, tr')"
  shows "def_body (try_except
       (bnd (poll_data 30 dev) (\<lambda>u. bnd (print_json (JObj [(''error'', JStr msg)])) (\<lambda>u. sys_exit 1)))
       (\<lambda>e. bnd (print_json (JObj [(''error'', JStr (str e))])) (\<lambda>u. sys_exit 1))) tr = (Inr (), tr')"
  using assms by (simp add: prog_defs)

lemma capture_finish_exhaust:
  assumes "poll_data 30 dev tr = (Inr (), tr')"
  shows "def_body (try_except
       (bnd (poll_data 30 dev) (\<lambda>u. bnd (print_json (JObj [(''error'', JStr msg)])) (\<lambda>u. sys_exit 1)))
       (\<lambda>e. bnd (print_json (JObj [(''error'', JStr (str e))])) (\<lambda>u. sys_exit 1))) tr =
       (Inl (Exited 1), tr' @ [Print (JObj [(''error'', JStr msg)])])"
  using assms by (simp add: prog_defs)

lemma capture_finish_abort:
  assumes "poll_data 30 dev tr = (Inl (Raised e), tr')"
  shows "def_body (try_except
       (bnd (poll_data 30 dev) (\<lambda>u. bnd (print_json (JObj [(''error'', JStr msg)])) (\<lambda>u. sys_exit 1)))
       (\<lambda>e. bnd (print_json (JObj [(''error'', JStr (str e))])) (\<lambda>u. sys_exit 1))) tr =
       (Inl (Exited 1), tr' @ [Print (JObj [(''error'', JStr (str e))])])"
  using assms by (simp add: prog_defs)

lemma seek_found_30:
  assumes "frequency_found dev j"
  shows "seek_frequency 30 dev [Call Auth, Call SweepFrequency] =
         (Inr True, [Call Auth, Call SweepFrequency] @ frequency_polls (Suc j))"
proof -
  have j: "j + Suc (29 - j) = 30" using assms by (simp add: frequency_found_def)
  have "seek_frequency (j + Suc (29 - j)) dev [Call Auth, Call SweepFrequency] =
        (Inr True, [Call Auth, Call SweepFrequency] @ frequency_polls (Suc j))"
    using assms by (intro seek_frequency_found [where c = 0]) (simp_all add: frequency_found_def)
  then show ?thesis by (simp only: j)
qed

lemma make_device_fixed:
  "make_device (fixed_runtime dev) ''192.168.1.20'' ''a0:43:b0:11:22:33'' ''0x2737'' = Inr dev"
  by (simp add: make_device_def fixed_runtime_def mac_str_to_bytes_def bytes_fromhex_def
      is_ascii_def hex_value_def py_isspace_def)

lemma lower_ir: "py_lower ''ir'' \<noteq> ''rf'' \<and> py_lower ''RF'' = ''rf''"
  by (simp add: py_lower_def py_lower_char_def)

lemma hex_example: "bytes_hex [0x26, 0x00, 0xd2] = ''2600d2''"
  by (simp add: bytes_hex_def format_02x_def digit_char_def)

subsection \<open>The capture poll loop of \<open>learn\<close>\<close>

text \<open>
  C2. In the capture loop of \<open>learn\<close>, both after \<open>enter_learning\<close> (infrared) and
  after \<open>find_rf_packet\<close> (radio frequency): for every \<open>N\<close> from 1 to 30, when
  \<open>check_data\<close> raises \<open>StorageError\<close> or \<open>ReadError\<close> on the first \<open>N - 1\<close>
  polls and returns a non-empty payload on poll \<open>N\<close>, the command polls exactly \<open>N\<close>
  times, prints that payload as its only line and returns; when all 30 polls raise such
  an exception, it prints the timeout error as its only line, with no payload, and
  exits with status 1.
\<close>

theorem learn_capture_poll:
  assumes dev: "make_device R h m d = Inr dev" and au: "auth dev = Inr ()"
    and N: "1 \<le> N" "N \<le> 30"
  shows
    "(py_lower st \<noteq> ''rf'' \<and> enter_learning dev = Inr () \<and>
      (\<forall>k<N - 1. \<exists>e. check_data dev k = Inl e \<and> not_ready e) \<and>
      check_data dev (N - 1) = Inr payload \<and> payload \<noteq> [] \<longrightarrow>
      learn R h m d st [] =
        (Inr (), [Call Auth, Call EnterLearning] @ capture_polls N @
                 [Print (JObj [(''code'', JStr (bytes_hex payload))])])) \<and>
     (py_lower st \<noteq> ''rf'' \<and> enter_learning dev = Inr () \<and>
      (\<forall>k<30. \<exists>e. check_data dev k = Inl e \<and> not_ready e) \<longrightarrow>
      learn R h m d st [] =
        (Inl (Exited 1), [Call Auth, Call EnterLearning] @ capture_polls 30 @
                 [Print (JObj [(''error'', JStr ''IR learning timeout'')])])) \<and>
     (py_lower st = ''rf'' \<and> frequency_found dev j \<and>
      (\<forall>k<N - 1. \<exists>e. check_data dev k = Inl e \<and> not_ready e) \<and>
      check_data dev (N - 1) = Inr payload \<and> payload \<noteq> [] \<longrightarrow>
      learn R h m d st [] =
        (Inr (), [Call Auth, Call SweepFrequency] @ frequency_polls (Suc j) @ [Call FindRfPacket] @
                 capture_polls N @ [Print (JObj [(''code'', JStr (bytes_hex payload))])])) \<and>
     (py_lower st = ''rf'' \<and> frequency_found dev j \<and>
      (\<forall>k<30. \<exists>e. check_data dev k = Inl e \<and> not_ready e) \<longrightarrow>
      learn R h m d st [] =
        (Inl (Exited 1), [Call Auth, Call SweepFrequency] @ frequency_polls (Suc j) @ [Call FindRfPacket] @
                 capture_polls 30 @ [Print (JObj [(''error'', JStr ''RF learning timeout'')])]))"
proof -
  have N30: "(N - 1) + Suc (30 - N) = 30" and SN: "Suc (N - 1) = N" using N by simp_all
  have hit: "poll_data 30 dev tr =
       (Inl Returned, tr @ capture_polls N @ [Print (JObj [(''code'', JStr (bytes_hex payload))])])"
    if "\<forall>k<N - 1. \<exists>e. check_data dev k = Inl e \<and> not_ready e"
      and "check_data dev (N - 1) = Inr payload" and "payload \<noteq> []"
      and "count_list tr (Call CheckData) = 0" for tr
  proof -
    have "poll_data ((N - 1) + Suc (30 - N)) dev tr =
       (Inl Returned, tr @ capture_polls (Suc (N - 1)) @ [Print (JObj [(''code'', JStr (bytes_hex payload))])])"
      using that by (intro poll_data_hit [where c = 0]) (simp_all add: not_ready_keeps)
    then show ?thesis by (simp only: N30 SN)
  qed
  have exhaust: "poll_data 30 dev tr = (Inr (), tr @ capture_polls 30)"
    if "\<forall>k<30. \<exists>e. check_data dev k = Inl e \<and> not_ready e"
      and "count_list tr (Call CheckData) = 0" for tr
    using that by (intro poll_data_exhaust [where c = 0]) (simp_all add: not_ready_keeps)
  show ?thesis
  proof (intro conjI impI)
    assume a: "py_lower st \<noteq> ''rf'' \<and> enter_learning dev = Inr () \<and>
      (\<forall>k<N - 1. \<exists>e. check_data dev k = Inl e \<and> not_ready e) \<and>
      check_data dev (N - 1) = Inr payload \<and> payload \<noteq> []"
    have "poll_data 30 dev [Call Auth, Call EnterLearning] =
       (Inl Returned, [Call Auth, Call EnterLearning] @ capture_polls N @ [Print (JObj [(''code'', JStr (bytes_hex payload))])])"
      using a by (intro hit) simp_all
    from capture_finish_hit [OF this] a dev au show "learn R h m d st [] =
        (Inr (), [Call Auth, Call EnterLearning] @ capture_polls N @
                 [Print (JObj [(''code'', JStr (bytes_hex payload))])])"
      by (simp add: learn_ir_unfold)
  next
    assume a: "py_lower st \<noteq> ''rf'' \<and> enter_learning dev = Inr () \<and>
      (\<forall>k<30. \<exists>e. check_data dev k = Inl e \<and> not_ready e)"
    have "poll_data 30 dev [Call Auth, Call EnterLearning] =
       (Inr (), [Call Auth, Call EnterLearning] @ capture_polls 30)"
      using a by (intro exhaust) simp_all
    from capture_finish_exhaust [OF this] a dev au show "learn R h m d st [] =
        (Inl (Exited 1), [Call Auth, Call EnterLearning] @ capture_polls 30 @
                 [Print (JObj [(''error'', JStr ''IR learning timeout'')])])"
      by (simp add: learn_ir_unfold)
  next
    assume a: "py_lower st = ''rf'' \<and> frequency_found dev j \<and>
      (\<forall>k<N - 1. \<exists>e. check_data dev k = Inl e \<and> not_ready e) \<and>
      check_data dev (N - 1) = Inr payload \<and> payload \<noteq> []"
    let ?tr = "([Call Auth, Call SweepFrequency] @ frequency_polls (Suc j)) @ [Call FindRfPacket]"
    have seek: "seek_frequency 30 dev [Call Auth, Call SweepFrequency] =
         (Inr True, [Call Auth, Call SweepFrequency] @ frequency_polls (Suc j))"
      using a by (intro seek_found_30) simp
    have "poll_data 30 dev ?tr =
       (Inl Returned, ?tr @ capture_polls N @ [Print (JObj [(''code'', JStr (bytes_hex payload))])])"
      using a by (intro hit) simp_all
    from capture_finish_hit [OF this] a dev au seek show "learn R h m d st [] =
        (Inr (), [Call Auth, Call SweepFrequency] @ frequency_polls (Suc j) @ [Call FindRfPacket] @
                 capture_polls N @ [Print (JObj [(''code'', JStr (bytes_hex payload))])])"
      by (simp add: learn_rf_unfold [where tr = "[Call Auth, Call SweepFrequency] @ frequency_polls (Suc j)"] frequency_found_def)
  next
    assume a: "py_lower st = ''rf'' \<and> frequency_found dev j \<and>
      (\<forall>k<30. \<exists>e. check_data dev k = Inl e \<and> not_ready e)"
    let ?tr = "([Call Auth, Call SweepFrequency] @ frequency_polls (Suc j)) @ [Call FindRfPacket]"
    have seek: "seek_frequency 30 dev [Call Auth, Call SweepFrequency] =
         (Inr True, [Call Auth, Call SweepFrequency] @ frequency_polls (Suc j))"
      using a by (intro seek_found_30) simp
    have "poll_data 30 dev ?tr = (Inr (), ?tr @ capture_polls 30)"
      using a by (intro exhaust) simp_all
    from capture_finish_exhaust [OF this] a dev au seek show "learn R h m d st [] =
        (Inl (Exited 1), [Call Auth, Call SweepFrequency] @ frequency_polls (Suc j) @ [Call FindRfPacket] @
                 capture_polls 30 @ [Print (JObj [(''error'', JStr ''RF learning timeout'')])])"
      by (simp add: learn_rf_unfold [where tr = "[Call Auth, Call SweepFrequency] @ frequency_polls (Suc j)"] frequency_found_def)
  qed
qed

theorem learn_capture_poll_witness:
  "learn (fixed_runtime remote_device) ''192.168.1.20'' ''a0:43:b0:11:22:33'' ''0x2737'' ''ir'' [] =
     (Inr (), [Call Auth, Call EnterLearning] @ capture_polls 3 @ [Print (JObj [(''code'', JStr ''2600d2'')])]) \<and>
   learn (fixed_runtime quiet_device) ''192.168.1.20'' ''a0:43:b0:11:22:33'' ''0x2737'' ''ir'' [] =
     (Inl (Exited 1), [Call Auth, Call EnterLearning] @ capture_polls 30 @
        [Print (JObj [(''error'', JStr ''IR learning timeout'')])]) \<and>
   learn (fixed_runtime remote_device) ''192.168.1.20'' ''a0:43:b0:11:22:33'' ''0x2737'' ''RF'' [] =
     (Inr (), [Call Auth, Call SweepFrequency] @ frequency_polls (Suc 1) @ [Call FindRfPacket] @
        capture_polls 3 @ [Print (JObj [(''code'', JStr ''2600d2'')])]) \<and>
   learn (fixed_runtime (quiet_device\<lparr>check_frequency := (\<lambda>k. Inr True)\<rparr>))
       ''192.168.1.20'' ''a0:43:b0:11:22:33'' ''0x2737'' ''RF'' [] =
     (Inl (Exited 1), [Call Auth, Call SweepFrequency] @ frequency_polls (Suc 0) @ [Call FindRfPacket] @
        capture_polls 30 @ [Print (JObj [(''error'', JStr ''RF learning timeout'')])])"
proof -
  have ff: "frequency_found remote_device 1"
    "frequency_found (quiet_device\<lparr>check_frequency := (\<lambda>k. Inr True)\<rparr>) 0"
    by (simp_all add: frequency_found_def remote_device_def quiet_device_def)
  have p: "\<forall>k<3 - 1. \<exists>e. check_data remote_device k = Inl e \<and> not_ready e"
    "check_data remote_device (3 - 1) = Inr [0x26, 0x00, 0xd2]"
    "\<forall>k<30. \<exists>e. check_data quiet_device k = Inl e \<and> not_ready e"
    "\<forall>k<30. \<exists>e. check_data (quiet_device\<lparr>check_frequency := (\<lambda>k. Inr True)\<rparr>) k = Inl e \<and> not_ready e"
    by (simp_all add: remote_device_def quiet_device_def not_ready_def)
  have ok: "auth remote_device = Inr ()" "enter_learning remote_device = Inr ()"
    "auth quiet_device = Inr ()" "enter_learning quiet_device = Inr ()"
    "auth (quiet_device\<lparr>check_frequency := (\<lambda>k. Inr True)\<rparr>) = Inr ()"
    by (simp_all add: remote_device_def quiet_device_def)
  show ?thesis
    using learn_capture_poll [OF make_device_fixed ok(1), of 3 "''ir''" "[0x26, 0x00, 0xd2]" 1]
      learn_capture_poll [OF make_device_fixed ok(3), of 3 "''ir''" "[0x26, 0x00, 0xd2]" 1]
      learn_capture_poll [OF make_device_fixed ok(1), of 3 "''RF''" "[0x26, 0x00, 0xd2]" 1]
      learn_capture_poll [OF make_device_fixed ok(5), of 3 "''RF''" "[0x26, 0x00, 0xd2]" 0]
      ff p ok lower_ir hex_example
    by simp
qed

subsection \<open>The frequency timeout of \<open>learn\<close>\<close>

lemma learn_rf_unfold_seek:
  assumes "make_device R h m d = Inr dev" and "auth dev = Inr ()" and "py_lower st = ''rf''"
    and "sweep_frequency dev = Inr ()"
    and "seek_frequency 30 dev [Call Auth, Call SweepFrequency] = (Inr False, tr)"
  shows "learn R h m d st [] =
     (Inl (Exited 1),
      tr @ [Print (JObj [(''error'', JStr ''No RF frequency found'')]), Call CancelSweepFrequency] @
      (case cancel_sweep_frequency dev of
         Inr u \<Rightarrow> []
       | Inl e \<Rightarrow> [Print (JObj [(''error'', JStr (str e))])]))"
  using assms by (simp add: learn_def prog_defs split: sum.splits)

lemma learn_rf_no_frequency:
  assumes "make_device R h m d = Inr dev" and "auth dev = Inr ()" and "py_lower st = ''rf''"
    and "sweep_frequency dev = Inr ()"
    and "\<forall>k<30. check_frequency dev k = Inr False"
  shows "learn R h m d st [] =
     (Inl (Exited 1),
      [Call Auth, Call SweepFrequency] @ frequency_polls 30 @
      [Print (JObj [(''error'', JStr ''No RF frequency found'')]), Call CancelSweepFrequency] @
      (case cancel_sweep_frequency dev of
         Inr u \<Rightarrow> []
       | Inl e \<Rightarrow> [Print (JObj [(''error'', JStr (str e))])]))"
proof -
  have "seek_frequency 30 dev [Call Auth, Call SweepFrequency] =
        (Inr False, [Call Auth, Call SweepFrequency] @ frequency_polls 30)"
    using assms(5) by (intro seek_frequency_exhaust [where c = 0]) simp_all
  from learn_rf_unfold_seek [OF assms(1-4) this] show ?thesis by simp
qed

lemma set_frequency_polls: "set (frequency_polls n) \<subseteq> {Sleep 1000, Call CheckFrequency}"
  by (induction n) (auto simp: frequency_polls_def)

lemma count_frequency_polls_cancel [simp]:
  "count_list (frequency_polls n) (Call CancelSweepFrequency) = 0"
  by (induction n) (simp_all add: frequency_polls_def)

lemma takeWhile_frequency_polls:
  "takeWhile (\<lambda>x. x \<noteq> Print j) (frequency_polls n @ Print j # rest) = frequency_polls n"
  using set_frequency_polls [of n] by (subst takeWhile_append2) auto

text \<open>
  C1, as the code has it. For \<open>learn\<close> with signal class \<open>rf\<close>, when all 30 frequency
  polls report no frequency: the error line "No RF frequency found" is printed first,
  \<open>cancel_sweep_frequency\<close> is then called exactly once, and the process exits with
  status 1. No capture poll is made. When the cancel call itself raises, the handler of
  \<open>learn\<close> prints that error as a second line before the exit.
\<close>

theorem learn_frequency_timeout:
  assumes "make_device R h m d = Inr dev" and "auth dev = Inr ()" and "py_lower st = ''rf''"
    and "sweep_frequency dev = Inr ()"
    and "\<forall>k<30. check_frequency dev k = Inr False"
  shows "learn R h m d st [] =
     (Inl (Exited 1),
      [Call Auth, Call SweepFrequency] @ frequency_polls 30 @
      [Print (JObj [(''error'', JStr ''No RF frequency found'')]), Call CancelSweepFrequency] @
      (case cancel_sweep_frequency dev of
         Inr u \<Rightarrow> []
       | Inl e \<Rightarrow> [Print (JObj [(''error'', JStr (str e))])])) \<and>
     count_list (snd (learn R h m d st [])) (Call CancelSweepFrequency) = 1 \<and>
     occurs_before (Print (JObj [(''error'', JStr ''No RF frequency found'')]))
       (Call CancelSweepFrequency) (snd (learn R h m d st [])) \<and>
     exit_status (fst (learn R h m d st [])) = 1"
  using learn_rf_no_frequency [OF assms] set_frequency_polls [of 30]
  by (auto simp: occurs_before_def exit_status_def takeWhile_append split: sum.splits)

theorem learn_frequency_timeout_witness:
  "learn (fixed_runtime quiet_device) ''192.168.1.20'' ''a0:43:b0:11:22:33'' ''0x2737'' ''rf'' [] =
     (Inl (Exited 1),
      [Call Auth, Call SweepFrequency] @ frequency_polls 30 @
      [Print (JObj [(''error'', JStr ''No RF frequency found'')]), Call CancelSweepFrequency])"
proof -
  have "py_lower ''rf'' = ''rf''" by (simp add: py_lower_def py_lower_char_def)
  then show ?thesis
    using learn_frequency_timeout [OF make_device_fixed, of quiet_device "''rf''"]
    by (simp add: quiet_device_def)
qed

text \<open>
  C1 as stated asks for the cancel call before the error line. On a device that never
  reports a frequency the cancel call does not occur before the error line.
\<close>

theorem cancel_before_report_counterexample:
  "\<not> occurs_before (Call CancelSweepFrequency)
       (Print (JObj [(''error'', JStr ''No RF frequency found'')]))
       (snd (learn (fixed_runtime quiet_device) ''192.168.1.20'' ''a0:43:b0:11:22:33'' ''0x2737'' ''rf'' []))"
proof -
  have l: "py_lower ''rf'' = ''rf''" by (simp add: py_lower_def py_lower_char_def)
  have "learn (fixed_runtime quiet_device) ''192.168.1.20'' ''a0:43:b0:11:22:33'' ''0x2737'' ''rf'' [] =
     (Inl (Exited 1),
      [Call Auth, Call SweepFrequency] @ frequency_polls 30 @
      [Print (JObj [(''error'', JStr ''No RF frequency found'')]), Call CancelSweepFrequency])"
    using learn_rf_no_frequency [OF make_device_fixed _ l, of quiet_device]
    by (simp add: quiet_device_def)
  then show ?thesis
    using set_frequency_polls [of 30]
    by (auto simp: occurs_before_def takeWhile_frequency_polls)
qed

subsection \<open>Errors that are not transient\<close>

text \<open>
  C4. In the capture loop of \<open>learn\<close> (infrared and radio frequency), when the polls
  before poll \<open>k\<close> all let the loop go on and poll \<open>k\<close> raises an exception that is
  neither \<open>StorageError\<close> nor \<open>ReadError\<close>, the command stops there: exactly
  \<open>k + 1\<close> polls are made, the only printed line is the error with the exception's own
  text, and the process exits with status 1.
\<close>

theorem learn_poll_abort:
  assumes "make_device R h m d = Inr dev" and "auth dev = Inr ()"
    and "k < 30" and "\<forall>i<k. keeps_polling (check_data dev i)"
    and "check_data dev k = Inl e"
    and "exn_class e \<noteq> StorageError" and "exn_class e \<noteq> ReadError"
  shows
    "(py_lower st \<noteq> ''rf'' \<and> enter_learning dev = Inr () \<longrightarrow>
      learn R h m d st [] =
        (Inl (Exited 1), [Call Auth, Call EnterLearning] @ capture_polls (Suc k) @
                 [Print (JObj [(''error'', JStr (str e))])])) \<and>
     (py_lower st = ''rf'' \<and> frequency_found dev j \<longrightarrow>
      learn R h m d st [] =
        (Inl (Exited 1), [Call Auth, Call SweepFrequency] @ frequency_polls (Suc j) @
                 [Call FindRfPacket] @ capture_polls (Suc k) @
                 [Print (JObj [(''error'', JStr (str e))])]))"
proof -
  have k30: "k + Suc (29 - k) = 30" using assms(3) by simp
  have nr: "\<not> not_ready e" using assms(6,7) by (simp add: not_ready_def)
  have abort: "poll_data 30 dev tr = (Inl (Raised e), tr @ capture_polls (Suc k))"
    if "count_list tr (Call CheckData) = 0" for tr
  proof -
    have "poll_data (k + Suc (29 - k)) dev tr = (Inl (Raised e), tr @ capture_polls (Suc k))"
      using that assms(4,5) nr by (intro poll_data_abort [where c = 0]) simp_all
    then show ?thesis by (simp only: k30)
  qed
  show ?thesis
  proof (intro conjI impI)
    assume a: "py_lower st \<noteq> ''rf'' \<and> enter_learning dev = Inr ()"
    have "poll_data 30 dev [Call Auth, Call EnterLearning] =
       (Inl (Raised e), [Call Auth, Call EnterLearning] @ capture_polls (Suc k))"
      by (intro abort) simp
    from capture_finish_abort [OF this] a assms(1,2) show "learn R h m d st [] =
        (Inl (Exited 1), [Call Auth, Call EnterLearning] @ capture_polls (Suc k) @
                 [Print (JObj [(''error'', JStr (str e))])])"
      by (simp add: learn_ir_unfold)
  next
    assume a: "py_lower st = ''rf'' \<and> frequency_found dev j"
    let ?tr = "([Call Auth, Call SweepFrequency] @ frequency_polls (Suc j)) @ [Call FindRfPacket]"
    have seek: "seek_frequency 30 dev [Call Auth, Call SweepFrequency] =
         (Inr True, [Call Auth, Call SweepFrequency] @ frequency_polls (Suc j))"
      using a by (intro seek_found_30) simp
    have "poll_data 30 dev ?tr = (Inl (Raised e), ?tr @ capture_polls (Suc k))"
      by (intro abort) simp
    from capture_finish_abort [OF this] a assms(1,2) seek show "learn R h m d st [] =
        (Inl (Exited 1), [Call Auth, Call SweepFrequency] @ frequency_polls (Suc j) @
                 [Call FindRfPacket] @ capture_polls (Suc k) @
                 [Print (JObj [(''error'', JStr (str e))])])"
      by (simp add: learn_rf_unfold [where tr = "[Call Auth, Call SweepFrequency] @ frequency_polls (Suc j)"] frequency_found_def)
  qed
qed

theorem learn_poll_abort_witness:
  "learn (fixed_runtime faulty_device) ''192.168.1.20'' ''a0:43:b0:11:22:33'' ''0x2737'' ''ir'' [] =
     (Inl (Exited 1), [Call Auth, Call EnterLearning] @ capture_polls (Suc 1) @
        [Print (JObj [(''error'', JStr ''Device is offline'')])]) \<and>
   learn (fixed_runtime faulty_device) ''192.168.1.20'' ''a0:43:b0:11:22:33'' ''0x2737'' ''RF'' [] =
     (Inl (Exited 1), [Call Auth, Call SweepFrequency] @ frequency_polls (Suc 0) @
        [Call FindRfPacket] @ capture_polls (Suc 1) @
        [Print (JObj [(''error'', JStr ''Device is offline'')])])"
proof -
  have ok: "auth faulty_device = Inr ()" "enter_learning faulty_device = Inr ()"
    "frequency_found faulty_device 0"
    "\<forall>i<1. keeps_polling (check_data faulty_device i)"
    "check_data faulty_device 1 = Inl (Exn OtherException ''Device is offline'')"
    by (simp_all add: faulty_device_def quiet_device_def frequency_found_def keeps_polling_def)
  show ?thesis
    using learn_poll_abort [OF make_device_fixed ok(1) _ ok(4) ok(5), of "''ir''" 0]
      learn_poll_abort [OF make_device_fixed ok(1) _ ok(4) ok(5), of "''RF''" 0]
      ok lower_ir
    by simp
qed

subsection \<open>Hexadecimal text of a captured code\<close>

lemma py_lower_char_cases:
  "py_lower_char c = l \<Longrightarrow>
   c = l \<or> (c, l) \<in> set (zip ''ABCDEFGHIJKLMNOPQRSTUVWXYZ'' ''abcdefghijklmnopqrstuvwxyz'')"
proof (cases "map_of (zip ''ABCDEFGHIJKLMNOPQRSTUVWXYZ'' ''abcdefghijklmnopqrstuvwxyz'') c")
  case None
  assume "py_lower_char c = l"
  with None have "c = l" by (simp only: py_lower_char_def option.case)
  then show ?thesis by (rule disjI1)
next
  case (Some x)
  assume "py_lower_char c = l"
  with Some have "x = l" by (simp only: py_lower_char_def option.case)
  with Some have "(c, l) \<in> set (zip ''ABCDEFGHIJKLMNOPQRSTUVWXYZ'' ''abcdefghijklmnopqrstuvwxyz'')"
    by (simp only: map_of_SomeD)
  then show ?thesis by (rule disjI2)
qed

lemma hex_tables:
  "list_all (\<lambda>n. hex_value (digit_char n) = Some n \<and>
      list_all (\<lambda>(u, l). l = digit_char n \<longrightarrow> hex_value u = Some n)
        (zip ''ABCDEFGHIJKLMNOPQRSTUVWXYZ'' ''abcdefghijklmnopqrstuvwxyz'')) [0..<16]"
  by code_simp

lemma space_not_hex:
  "list_all (\<lambda>c. hex_value c = None) [CHR '' '', CHR 0x09, CHR 0x0A, CHR 0x0B, CHR 0x0C, CHR 0x0D]"
  by (simp add: hex_value_def)

lemma hex_value_digit_char: "n < 16 \<Longrightarrow> hex_value (digit_char n) = Some n"
  using hex_tables by (simp add: list_all_iff)

lemma hex_value_of_lower:
  assumes "py_lower_char c = digit_char n" and "n < 16"
  shows "hex_value c = Some n"
proof -
  have tab: "\<forall>(u, l) \<in> set (zip ''ABCDEFGHIJKLMNOPQRSTUVWXYZ'' ''abcdefghijklmnopqrstuvwxyz'').
               l = digit_char n \<longrightarrow> hex_value u = Some n"
    using hex_tables assms(2) by (simp add: list_all_iff)
  from py_lower_char_cases [OF assms(1)] show ?thesis
  proof
    assume "c = digit_char n"
    with assms(2) show ?thesis by (simp add: hex_value_digit_char)
  next
    assume "(c, digit_char n) \<in> set (zip ''ABCDEFGHIJKLMNOPQRSTUVWXYZ'' ''abcdefghijklmnopqrstuvwxyz'')"
    with tab show ?thesis by blast
  qed
qed

lemma hex_value_not_space: "hex_value c = Some n \<Longrightarrow> \<not> py_isspace c"
proof
  assume h: "hex_value c = Some n" and "py_isspace c"
  then have "c \<in> set [CHR '' '', CHR 0x09, CHR 0x0A, CHR 0x0B, CHR 0x0C, CHR 0x0D]"
    by (simp only: py_isspace_def)
  with space_not_hex have "hex_value c = None"
    by (simp only: list_all_iff)
  with h show False by simp
qed

lemma byte_nibbles: "unat (x :: byte) div 16 < 16 \<and> unat x mod 16 < 16"
proof -
  have "unat x < 256" using unsigned_less [of x, where ?'a = nat] by simp
  then show ?thesis by simp
qed

lemma byte_of_nibbles: "(of_nat (16 * (unat x div 16) + unat x mod 16) :: byte) = x"
  by simp

lemma fromhex_at_hex:
  "map py_lower_char s = bytes_hex bs \<Longrightarrow> fromhex_at pos s = Inr bs"
proof (induction bs arbitrary: s pos)
  case Nil
  then show ?case by (simp add: bytes_hex_def)
next
  case (Cons b bs)
  from Cons.prems obtain c1 c2 s' where s: "s = c1 # c2 # s'"
    and c1: "py_lower_char c1 = digit_char (unat b div 16)"
    and c2: "py_lower_char c2 = digit_char (unat b mod 16)"
    and rest: "map py_lower_char s' = bytes_hex bs"
    by (auto simp: bytes_hex_def format_02x_def map_eq_Cons_conv)
  have h1: "hex_value c1 = Some (unat b div 16)" and h2: "hex_value c2 = Some (unat b mod 16)"
    using c1 c2 byte_nibbles [of b] by (simp_all add: hex_value_of_lower)
  have sp: "\<not> py_isspace c1" using h1 by (rule hex_value_not_space)
  show ?case
    using Cons.IH [OF rest, of "pos + 2"] h1 h2 sp by (simp add: s)
qed

lemma hex_digits_ascii: "list_all is_ascii ''0123456789abcdefABCDEF''"
  by (simp add: is_ascii_def)

lemma hex_value_ascii:
  assumes "hex_value c = Some n"
  shows "is_ascii c"
proof -
  from assms have "(c, n) \<in> set (zip ''0123456789abcdefABCDEF''
      [0, 1, 2, 3, 4, 5, 6, 7, 8, 9, 10, 11, 12, 13, 14, 15, 10, 11, 12, 13, 14, 15])"
    unfolding hex_value_def by (rule map_of_SomeD)
  then have "c \<in> set ''0123456789abcdefABCDEF''" by (rule set_zip_leftD)
  with hex_digits_ascii show ?thesis unfolding list_all_iff by blast
qed

lemma first_non_ascii_None: "\<forall>c\<in>set s. is_ascii c \<Longrightarrow> first_non_ascii pos s = None"
  by (induction s arbitrary: pos) simp_all

lemma digit_char_lowercase: "n < 16 \<Longrightarrow> digit_char n \<in> set ''0123456789abcdef''"
  unfolding digit_char_def by (rule nth_mem) simp

lemma bytes_hex_lowercase: "set (bytes_hex bs) \<subseteq> set ''0123456789abcdef''"
proof (induction bs)
  case Nil
  show ?case by (simp add: bytes_hex_def)
next
  case (Cons b bs)
  have "set (format_02x b) \<subseteq> set ''0123456789abcdef''"
    using byte_nibbles [of b] digit_char_lowercase [of "unat b div 16"]
      digit_char_lowercase [of "unat b mod 16"]
    by (simp only: format_02x_def set_simps insert_subset empty_subsetI simp_thms)
  with Cons show ?case by (simp only: bytes_hex_def list.map concat.simps set_append Un_subset_iff simp_thms)
qed

lemma length_bytes_hex: "length (bytes_hex bs) = 2 * length bs"
  by (induction bs) (simp_all add: bytes_hex_def format_02x_def)

lemma lowered_hex_ascii:
  assumes "map py_lower_char s = bytes_hex bs"
  shows "first_non_ascii 0 s = None"
proof (rule first_non_ascii_None, rule ballI)
  fix c assume "c \<in> set s"
  then have "py_lower_char c \<in> set (map py_lower_char s)" by simp
  with assms bytes_hex_lowercase [of bs] have "py_lower_char c \<in> set ''0123456789abcdef''"
    by auto
  then obtain n where nl: "n < length ''0123456789abcdef''"
    and nc: "''0123456789abcdef'' ! n = py_lower_char c"
    unfolding in_set_conv_nth by blast
  from nl have n16: "n < 16" by simp
  from nc have "py_lower_char c = digit_char n" unfolding digit_char_def by (rule sym)
  then have "hex_value c = Some n" using n16 by (rule hex_value_of_lower)
  then show "is_ascii c" by (rule hex_value_ascii)
qed

lemma bytes_fromhex_hex:
  "map py_lower_char s = bytes_hex bs \<Longrightarrow> bytes_fromhex s = Inr bs"
  by (simp add: bytes_fromhex_def lowered_hex_ascii fromhex_at_hex)

lemma poll_data_capture:
  assumes "bs \<noteq> []" and "check_data ldev (count_list tr (Call CheckData)) = Inr bs"
  shows "poll_data (Suc n) ldev tr =
     (Inl Returned, tr @ [Sleep 1000, Call CheckData, Print (JObj [(''code'', JStr (bytes_hex bs))])])"
  using assms by (simp add: prog_defs)

lemma send_decoded:
  assumes "make_device R h m d = Inr dev" and "auth dev = Inr ()" and "bytes_fromhex code = Inr bs"
  shows "send R h m d code [] =
     (case send_data dev bs of
        Inr u \<Rightarrow> (Inr (), [Call Auth, Call (SendData bs), Print (JObj [(''success'', JBool True)])])
      | Inl e \<Rightarrow> (Inl (Exited 1), [Call Auth, Call (SendData bs),
                   Print (JObj [(''success'', JBool False), (''error'', JStr (str e))])]))"
  using assms by (simp add: send_def prog_defs split: sum.splits)

text \<open>
  C5. \<open>learn\<close> prints a captured payload as \<open>data.hex()\<close>: two lowercase hexadecimal
  digits for every byte. Whatever the case of its letters, that text decodes in \<open>send\<close>
  to the same bytes, and those bytes are what \<open>send\<close> hands to \<open>send_data\<close>.
\<close>

theorem hex_roundtrip:
  assumes "py_lower code = bytes_hex bs"
  shows "set (bytes_hex bs) \<subseteq> set ''0123456789abcdef'' \<and>
     length (bytes_hex bs) = 2 * length bs \<and>
     bytes_fromhex code = Inr bs \<and>
     (bs \<noteq> [] \<and> check_data ldev (count_list tr (Call CheckData)) = Inr bs \<longrightarrow>
        poll_data (Suc n) ldev tr =
          (Inl Returned, tr @ [Sleep 1000, Call CheckData, Print (JObj [(''code'', JStr (bytes_hex bs))])])) \<and>
     (make_device R h m d = Inr dev \<and> auth dev = Inr () \<longrightarrow>
        send R h m d code [] =
          (case send_data dev bs of
             Inr u \<Rightarrow> (Inr (), [Call Auth, Call (SendData bs), Print (JObj [(''success'', JBool True)])])
           | Inl e \<Rightarrow> (Inl (Exited 1), [Call Auth, Call (SendData bs),
                        Print (JObj [(''success'', JBool False), (''error'', JStr (str e))])])))"
proof -
  have dec: "bytes_fromhex code = Inr bs"
    using assms by (simp add: py_lower_def bytes_fromhex_hex)
  show ?thesis
  proof (intro conjI impI)
    show "set (bytes_hex bs) \<subseteq> set ''0123456789abcdef''" by (rule bytes_hex_lowercase)
    show "length (bytes_hex bs) = 2 * length bs" by (rule length_bytes_hex)
    show "bytes_fromhex code = Inr bs" by (rule dec)
  next
    assume "bs \<noteq> [] \<and> check_data ldev (count_list tr (Call CheckData)) = Inr bs"
    then show "poll_data (Suc n) ldev tr =
          (Inl Returned, tr @ [Sleep 1000, Call CheckData, Print (JObj [(''code'', JStr (bytes_hex bs))])])"
      by (intro poll_data_capture) simp_all
  next
    assume "make_device R h m d = Inr dev \<and> auth dev = Inr ()"
    then show "send R h m d code [] =
          (case send_data dev bs of
             Inr u \<Rightarrow> (Inr (), [Call Auth, Call (SendData bs), Print (JObj [(''success'', JBool True)])])
           | Inl e \<Rightarrow> (Inl (Exited 1), [Call Auth, Call (SendData bs),
                        Print (JObj [(''success'', JBool False), (''error'', JStr (str e))])]))"
      using dec by (intro send_decoded) simp_all
  qed
qed

theorem hex_roundtrip_witness:
  "bytes_hex [0x26, 0x00, 0xd2] = ''2600d2'' \<and>
   bytes_fromhex ''2600D2'' = Inr [0x26, 0x00, 0xd2] \<and>
   poll_data (Suc 0) remote_device (capture_polls 2) =
     (Inl Returned, capture_polls 2 @ [Sleep 1000, Call CheckData, Print (JObj [(''code'', JStr ''2600d2'')])]) \<and>
   send (fixed_runtime remote_device) ''192.168.1.20'' ''a0:43:b0:11:22:33'' ''0x2737'' ''2600D2'' [] =
     (Inr (), [Call Auth, Call (SendData [0x26, 0x00, 0xd2]), Print (JObj [(''success'', JBool True)])])"
proof -
  have l: "py_lower ''2600D2'' = bytes_hex [0x26, 0x00, 0xd2]"
    by (simp add: hex_example py_lower_def py_lower_char_def)
  have d: "check_data remote_device (count_list (capture_polls 2) (Call CheckData)) = Inr [0x26, 0x00, 0xd2]"
    "auth remote_device = Inr ()" "send_data remote_device [0x26, 0x00, 0xd2] = Inr ()"
    by (simp_all add: remote_device_def quiet_device_def)
  show ?thesis
    using hex_roundtrip [OF l, of remote_device "capture_polls 2" 0 "fixed_runtime remote_device"
        "''192.168.1.20''" "''a0:43:b0:11:22:33''" "''0x2737''" remote_device]
      d make_device_fixed [of remote_device] hex_example
    by simp
qed

subsection \<open>The \<open>test\<close> command\<close>

lemma test_never_exits: "fst (test R h m d tr) = Inr ()"
  by (simp add: test_def prog_defs split: sum.splits prod.splits signal.splits)

lemma test_auth_fails:
  assumes "make_device R h m d = Inr dev" and "auth dev = Inl e"
  shows "test R h m d [] =
     (Inr (), [Call (SetTimeout 5), Call Auth,
        Print (if exn_class e = SocketTimeout then JObj [(''online'', JBool False)]
               else JObj [(''online'', JBool False), (''error'', JStr (str e))])])"
  using assms by (simp add: test_def prog_defs)

lemma test_auth_ok:
  assumes "make_device R h m d = Inr dev" and "auth dev = Inr ()"
  shows "test R h m d [] =
     (Inr (), [Call (SetTimeout 5), Call Auth, Print (JObj [(''online'', JBool True)])])"
  using assms by (simp add: test_def prog_defs)

lemma main_test:
  assumes "5 \<le> length argv" and "py_lower (argv ! 1) = ''test''"
  shows "main R argv = test R (argv ! 2) (argv ! 3) (argv ! 4)"
  using assms by (simp add: main_def)

text \<open>
  C6. \<open>test\<close> never leaves through \<open>sys.exit\<close> or an exception. When the handshake
  raises \<open>socket.timeout\<close> the printed object is exactly \<open>{"online": false}\<close>; when
  it raises anything else the object is \<open>{"online": false, "error": str(e)}\<close>; which
  of the two is decided by the class of the exception alone. A \<open>test\<close> command line
  with its three arguments ends with exit status 0.
\<close>

theorem test_handshake:
  "fst (test R h m d tr) = Inr () \<and>
   (make_device R h m d = Inr dev \<and> auth dev = Inl e \<and> exn_class e = SocketTimeout \<longrightarrow>
      test R h m d [] =
        (Inr (), [Call (SetTimeout 5), Call Auth, Print (JObj [(''online'', JBool False)])])) \<and>
   (make_device R h m d = Inr dev \<and> auth dev = Inl e \<and> exn_class e \<noteq> SocketTimeout \<longrightarrow>
      test R h m d [] =
        (Inr (), [Call (SetTimeout 5), Call Auth,
                  Print (JObj [(''online'', JBool False), (''error'', JStr (str e))])])) \<and>
   (5 \<le> length argv \<and> py_lower (argv ! 1) = ''test'' \<longrightarrow>
      exit_status (fst (main R argv tr)) = 0)"
proof (intro conjI impI)
  show "fst (test R h m d tr) = Inr ()" by (rule test_never_exits)
next
  assume "make_device R h m d = Inr dev \<and> auth dev = Inl e \<and> exn_class e = SocketTimeout"
  then show "test R h m d [] =
        (Inr (), [Call (SetTimeout 5), Call Auth, Print (JObj [(''online'', JBool False)])])"
    using test_auth_fails [of R h m d dev e] by simp
next
  assume "make_device R h m d = Inr dev \<and> auth dev = Inl e \<and> exn_class e \<noteq> SocketTimeout"
  then show "test R h m d [] =
        (Inr (), [Call (SetTimeout 5), Call Auth,
                  Print (JObj [(''online'', JBool False), (''error'', JStr (str e))])])"
    using test_auth_fails [of R h m d dev e] by simp
next
  assume "5 \<le> length argv \<and> py_lower (argv ! 1) = ''test''"
  then have "main R argv = test R (argv ! 2) (argv ! 3) (argv ! 4)"
    by (intro main_test) simp_all
  then show "exit_status (fst (main R argv tr)) = 0"
    by (simp add: test_never_exits exit_status_def)
qed

theorem test_handshake_witness:
  "test (fixed_runtime (quiet_device\<lparr>auth := Inl (Exn SocketTimeout ''timed out'')\<rparr>))
       ''192.168.1.20'' ''a0:43:b0:11:22:33'' ''0x2737'' [] =
     (Inr (), [Call (SetTimeout 5), Call Auth, Print (JObj [(''online'', JBool False)])]) \<and>
   test (fixed_runtime (quiet_device\<lparr>auth := Inl (Exn OtherException ''Authentication failed'')\<rparr>))
       ''192.168.1.20'' ''a0:43:b0:11:22:33'' ''0x2737'' [] =
     (Inr (), [Call (SetTimeout 5), Call Auth,
               Print (JObj [(''online'', JBool False), (''error'', JStr ''Authentication failed'')])]) \<and>
   exit_status (fst (main (fixed_runtime quiet_device)
       [''broadlink_bridge.py'', ''TEST'', ''192.168.1.20'', ''a0:43:b0:11:22:33'', ''0x2737''] [])) = 0"
proof -
  have l: "py_lower ''TEST'' = ''test''" by (simp add: py_lower_def py_lower_char_def)
  show ?thesis
    using test_handshake [of "fixed_runtime (quiet_device\<lparr>auth := Inl (Exn SocketTimeout ''timed out'')\<rparr>)"
        "''192.168.1.20''" "''a0:43:b0:11:22:33''" "''0x2737''" "[]"
        "quiet_device\<lparr>auth := Inl (Exn SocketTimeout ''timed out'')\<rparr>"
        "Exn SocketTimeout ''timed out''"
        "[''broadlink_bridge.py'', ''TEST'', ''192.168.1.20'', ''a0:43:b0:11:22:33'', ''0x2737'']"]
      test_handshake [of "fixed_runtime (quiet_device\<lparr>auth := Inl (Exn OtherException ''Authentication failed'')\<rparr>)"
        "''192.168.1.20''" "''a0:43:b0:11:22:33''" "''0x2737''" "[]"
        "quiet_device\<lparr>auth := Inl (Exn OtherException ''Authentication failed'')\<rparr>"
        "Exn OtherException ''Authentication failed''"
        "[''broadlink_bridge.py'', ''TEST'', ''192.168.1.20'', ''a0:43:b0:11:22:33'', ''0x2737'']"]
      test_handshake [of "fixed_runtime quiet_device"
        "''192.168.1.20''" "''a0:43:b0:11:22:33''" "''0x2737''" "[]" quiet_device
        "Exn OtherException ''Authentication failed''"
        "[''broadlink_bridge.py'', ''TEST'', ''192.168.1.20'', ''a0:43:b0:11:22:33'', ''0x2737'']"]
      make_device_fixed l
    by simp
qed

subsection \<open>The \<open>discover\<close> command\<close>

lemma discover_loop_result:
  "discover_loop devices result tr =
     (Inr (result @ map device_entry (filter (\<lambda>dev. auth dev = Inr ()) devices)),
      tr @ map (\<lambda>dev. Call Auth) devices)"
proof (induction devices arbitrary: result tr)
  case Nil
  show ?case by (simp add: ret_def)
next
  case (Cons dev devices)
  show ?case
  proof (cases "auth dev")
    case (Inl e)
    then have "discover_loop (dev # devices) result tr = discover_loop devices result (tr @ [Call Auth])"
      by (simp add: prog_defs)
    with Inl show ?thesis by (simp add: Cons.IH)
  next
    case (Inr u)
    then have "discover_loop (dev # devices) result tr =
        discover_loop devices (result @ [device_entry dev]) (tr @ [Call Auth])"
      by (simp add: prog_defs)
    with Inr show ?thesis by (simp add: Cons.IH)
  qed
qed

text \<open>
  C9. When \<open>broadlink.discover\<close> returns, \<open>discover\<close> calls \<open>auth\<close> on every
  device in turn and prints one array, with an entry for exactly the devices whose
  \<open>auth\<close> did not raise, in their order. A device whose \<open>auth\<close> raises leaves no
  trace in the output, and the command returns with exit status 0.
\<close>

theorem discover_authenticated_only:
  assumes "broadlink_discover R timeout = Inr devices"
  shows "discover R timeout [] =
     (Inr (), Call (Discover timeout) # map (\<lambda>dev. Call Auth) devices @
        [Print (JArr (map device_entry (filter (\<lambda>dev. auth dev = Inr ()) devices)))]) \<and>
     exit_status (fst (discover R timeout [])) = 0"
  using assms by (simp add: discover_def prog_defs discover_loop_result exit_status_def)

lemma quiet_entry:
  "device_entry quiet_device =
     JObj [(''type'', JStr ''0x2737''), (''model'', JStr ''RM4 mini''), (''host'', JStr ''192.168.1.20''),
           (''mac'', JStr ''a0:43:b0:11:22:33''), (''name'', JStr ''Hall'')]"
  by (simp add: device_entry_def quiet_device_def py_hex_def format_02x_def digit_char_def)

theorem discover_authenticated_only_witness:
  "discover mixed_runtime 5 [] =
     (Inr (), [Call (Discover 5), Call Auth, Call Auth,
        Print (JArr [JObj [(''type'', JStr ''0x2737''), (''model'', JStr ''RM4 mini''),
                           (''host'', JStr ''192.168.1.20''), (''mac'', JStr ''a0:43:b0:11:22:33''),
                           (''name'', JStr ''Hall'')]])])"
proof -
  have d: "broadlink_discover mixed_runtime 5 =
      Inr [remote_device\<lparr>auth := Inl (Exn OtherException ''Authentication failed'')\<rparr>, quiet_device]"
    by (simp add: mixed_runtime_def fixed_runtime_def)
  have a: "auth quiet_device = Inr ()" by (simp add: quiet_device_def)
  show ?thesis
    using discover_authenticated_only [OF d] a by (simp add: quiet_entry)
qed

subsection \<open>The signal class of \<open>learn\<close>\<close>

lemma learn_not_rf:
  assumes "py_lower st \<noteq> ''rf''"
  shows "learn R h m d st = learn R h m d ''ir''"
proof -
  have "py_lower ''ir'' \<noteq> ''rf''" by (simp add: py_lower_def py_lower_char_def)
  with assms show ?thesis by (simp add: learn_def)
qed

lemma main_learn:
  assumes "5 \<le> length argv" and "py_lower (argv ! 1) = ''learn''"
  shows "main R argv =
     learn R (argv ! 2) (argv ! 3) (argv ! 4) (if length argv > 5 then argv ! 5 else ''ir'')"
  using assms by (simp add: main_def)

lemma poll_data_events:
  "\<exists>ext. snd (poll_data n dev tr) = tr @ ext \<and>
         set ext \<subseteq> insert (Sleep 1000) (insert (Call CheckData) (range Print))"
proof (induction n arbitrary: tr)
  case 0
  show ?case by (simp add: ret_def)
next
  case (Suc n)
  let ?tr = "tr @ [Sleep 1000, Call CheckData]"
  from Suc.IH [of ?tr] obtain ext where
    ext: "snd (poll_data n dev ?tr) = ?tr @ ext"
      "set ext \<subseteq> insert (Sleep 1000) (insert (Call CheckData) (range Print))"
    by blast
  have go: "snd (poll_data n dev ?tr) = tr @ ([Sleep 1000, Call CheckData] @ ext) \<and>
     set ([Sleep 1000, Call CheckData] @ ext) \<subseteq> insert (Sleep 1000) (insert (Call CheckData) (range Print))"
    using ext by simp
  show ?case
  proof (cases "check_data dev (count_list tr (Call CheckData))")
    case (Inl e)
    show ?thesis
    proof (cases "not_ready e")
      case True
      with Inl have "poll_data (Suc n) dev tr = poll_data n dev ?tr" by (simp add: prog_defs)
      with go show ?thesis by metis
    next
      case False
      with Inl have "poll_data (Suc n) dev tr = (Inl (Raised e), tr @ [Sleep 1000, Call CheckData])"
        by (simp add: prog_defs)
      then show ?thesis by simp
    qed
  next
    case (Inr data)
    show ?thesis
    proof (cases "data = []")
      case True
      with Inr have "poll_data (Suc n) dev tr = poll_data n dev ?tr" by (simp add: prog_defs)
      with go show ?thesis by metis
    next
      case False
      with Inr have "poll_data (Suc n) dev tr =
          (Inl Returned, tr @ [Sleep 1000, Call CheckData, Print (JObj [(''code'', JStr (bytes_hex data))])])"
        by (simp add: prog_defs)
      then show ?thesis by simp
    qed
  qed
qed

lemma capture_finish_events:
  "\<exists>ps. snd (def_body (try_except
       (bnd (poll_data 30 dev) (\<lambda>u. bnd (print_json (JObj [(''error'', JStr msg)])) (\<lambda>u. sys_exit 1)))
       (\<lambda>e. bnd (print_json (JObj [(''error'', JStr (str e))])) (\<lambda>u. sys_exit 1))) tr) =
     snd (poll_data 30 dev tr) @ ps \<and> set ps \<subseteq> range Print"
proof (cases "poll_data 30 dev tr")
  case (Pair r tr')
  then show ?thesis
    by (cases r) (auto simp: prog_defs split: signal.splits)
qed

lemma learn_ir_events:
  assumes "py_lower st \<noteq> ''rf''"
  shows "set (snd (learn R h m d st [])) \<subseteq>
     insert (Call Auth) (insert (Call EnterLearning)
       (insert (Sleep 1000) (insert (Call CheckData) (range Print))))"
proof (cases "make_device R h m d")
  case (Inl e)
  then show ?thesis by (simp add: learn_def prog_defs)
next
  case dev: (Inr dev)
  show ?thesis
  proof (cases "auth dev")
    case (Inl e)
    with dev show ?thesis by (simp add: learn_def prog_defs)
  next
    case au: (Inr u)
    show ?thesis
    proof (cases "enter_learning dev")
      case (Inl e)
      with dev au assms show ?thesis by (simp add: learn_def prog_defs)
    next
      case (Inr v)
      from poll_data_events [of 30 dev "[Call Auth, Call EnterLearning]"] obtain ext where
        ext: "snd (poll_data 30 dev [Call Auth, Call EnterLearning]) = [Call Auth, Call EnterLearning] @ ext"
          "set ext \<subseteq> insert (Sleep 1000) (insert (Call CheckData) (range Print))"
        by blast
      from capture_finish_events [of dev "''IR learning timeout''" "[Call Auth, Call EnterLearning]"]
      obtain ps where ps: "snd (learn R h m d st []) =
          snd (poll_data 30 dev [Call Auth, Call EnterLearning]) @ ps" "set ps \<subseteq> range Print"
        using learn_ir_unfold [OF dev _ assms] au Inr by auto
      show ?thesis using ext ps by auto
    qed
  qed
qed

lemma learn_ir_first_requests:
  assumes "make_device R h m d = Inr dev" and "auth dev = Inr ()" and "py_lower st \<noteq> ''rf''"
  shows "take 2 (snd (learn R h m d st [])) = [Call Auth, Call EnterLearning]"
proof (cases "enter_learning dev")
  case (Inl e)
  with assms show ?thesis by (simp add: learn_def prog_defs)
next
  case (Inr v)
  from poll_data_events [of 30 dev "[Call Auth, Call EnterLearning]"] obtain ext where
    ext: "snd (poll_data 30 dev [Call Auth, Call EnterLearning]) = [Call Auth, Call EnterLearning] @ ext"
    by blast
  from capture_finish_events [of dev "''IR learning timeout''" "[Call Auth, Call EnterLearning]"]
  obtain ps where ps: "snd (learn R h m d st []) =
      snd (poll_data 30 dev [Call Auth, Call EnterLearning]) @ ps"
    using learn_ir_unfold [OF assms(1,2,3)] Inr by auto
  show ?thesis using ext ps by simp
qed

text \<open>
  C10. A \<open>learn\<close> command line with its three arguments is always handed to
  \<open>learn\<close>, whatever the fourth argument is: no signal class gives a usage error.
  When the signal class, lowercased, is not \<open>rf\<close>, the command behaves exactly as with
  \<open>ir\<close>: it makes none of the radio-frequency requests, and once the device is built
  and authenticated its next request is \<open>enter_learning\<close>. When that request is
  accepted, the rest of the run is the infrared capture loop of 30 polls, followed by
  the "IR learning timeout" error, under the handler of \<open>learn\<close>.
\<close>

theorem learn_signal_class:
  assumes "5 \<le> length argv" and "py_lower (argv ! 1) = ''learn''"
  shows "main R argv =
       learn R (argv ! 2) (argv ! 3) (argv ! 4) (if length argv > 5 then argv ! 5 else ''ir'') \<and>
     (py_lower (if length argv > 5 then argv ! 5 else ''ir'') \<noteq> ''rf'' \<longrightarrow>
        main R argv = learn R (argv ! 2) (argv ! 3) (argv ! 4) ''ir'' \<and>
        Call SweepFrequency \<notin> set (snd (main R argv [])) \<and>
        Call CheckFrequency \<notin> set (snd (main R argv [])) \<and>
        Call FindRfPacket \<notin> set (snd (main R argv [])) \<and>
        (make_device R (argv ! 2) (argv ! 3) (argv ! 4) = Inr dev \<and> auth dev = Inr () \<longrightarrow>
           take 2 (snd (main R argv [])) = [Call Auth, Call EnterLearning]) \<and>
        (make_device R (argv ! 2) (argv ! 3) (argv ! 4) = Inr dev \<and> auth dev = Inr () \<and>
         enter_learning dev = Inr () \<longrightarrow>
           main R argv [] =
             def_body (try_except
               (bnd (poll_data 30 dev) (\<lambda>u.
                  bnd (print_json (JObj [(''error'', JStr ''IR learning timeout'')])) (\<lambda>u. sys_exit 1)))
               (\<lambda>e. bnd (print_json (JObj [(''error'', JStr (str e))])) (\<lambda>u. sys_exit 1)))
               [Call Auth, Call EnterLearning]))"
proof (intro conjI impI)
  show m: "main R argv =
       learn R (argv ! 2) (argv ! 3) (argv ! 4) (if length argv > 5 then argv ! 5 else ''ir'')"
    using assms by (rule main_learn)
  assume st: "py_lower (if length argv > 5 then argv ! 5 else ''ir'') \<noteq> ''rf''"
  show "main R argv = learn R (argv ! 2) (argv ! 3) (argv ! 4) ''ir''"
    using m learn_not_rf [OF st] by simp
  have ev: "set (snd (main R argv [])) \<subseteq>
     insert (Call Auth) (insert (Call EnterLearning)
       (insert (Sleep 1000) (insert (Call CheckData) (range Print))))"
    using learn_ir_events [OF st] m by simp
  show "Call SweepFrequency \<notin> set (snd (main R argv []))" using ev by auto
  show "Call CheckFrequency \<notin> set (snd (main R argv []))" using ev by auto
  show "Call FindRfPacket \<notin> set (snd (main R argv []))" using ev by auto
  {
    assume "make_device R (argv ! 2) (argv ! 3) (argv ! 4) = Inr dev \<and> auth dev = Inr ()"
    then show "take 2 (snd (main R argv [])) = [Call Auth, Call EnterLearning]"
      using learn_ir_first_requests [of R "argv ! 2" "argv ! 3" "argv ! 4" dev, OF _ _ st] m by simp
  }
  assume a: "make_device R (argv ! 2) (argv ! 3) (argv ! 4) = Inr dev \<and> auth dev = Inr () \<and>
         enter_learning dev = Inr ()"
  have "learn R (argv ! 2) (argv ! 3) (argv ! 4) (if length argv > 5 then argv ! 5 else ''ir'') [] =
             def_body (try_except
               (bnd (poll_data 30 dev) (\<lambda>u.
                  bnd (print_json (JObj [(''error'', JStr ''IR learning timeout'')])) (\<lambda>u. sys_exit 1)))
               (\<lambda>e. bnd (print_json (JObj [(''error'', JStr (str e))])) (\<lambda>u. sys_exit 1)))
               [Call Auth, Call EnterLearning]"
    using a st by (intro learn_ir_unfold) simp_all
  then show "main R argv [] =
             def_body (try_except
               (bnd (poll_data 30 dev) (\<lambda>u.
                  bnd (print_json (JObj [(''error'', JStr ''IR learning timeout'')])) (\<lambda>u. sys_exit 1)))
               (\<lambda>e. bnd (print_json (JObj [(''error'', JStr (str e))])) (\<lambda>u. sys_exit 1)))
               [Call Auth, Call EnterLearning]"
    using m by simp
qed

theorem learn_signal_class_witness:
  "main (fixed_runtime remote_device)
       [''broadlink_bridge.py'', ''learn'', ''192.168.1.20'', ''a0:43:b0:11:22:33'', ''0x2737'', ''microwave''] =
     learn (fixed_runtime remote_device) ''192.168.1.20'' ''a0:43:b0:11:22:33'' ''0x2737'' ''ir'' \<and>
   Call SweepFrequency \<notin> set (snd (main (fixed_runtime remote_device)
       [''broadlink_bridge.py'', ''learn'', ''192.168.1.20'', ''a0:43:b0:11:22:33'', ''0x2737'', ''microwave''] [])) \<and>
   take 2 (snd (main (fixed_runtime remote_device)
       [''broadlink_bridge.py'', ''learn'', ''192.168.1.20'', ''a0:43:b0:11:22:33'', ''0x2737'', ''microwave''] [])) =
     [Call Auth, Call EnterLearning] \<and>
   main (fixed_runtime remote_device)
       [''broadlink_bridge.py'', ''learn'', ''192.168.1.20'', ''a0:43:b0:11:22:33'', ''0x2737'', ''microwave''] [] =
     def_body (try_except
       (bnd (poll_data 30 remote_device) (\<lambda>u.
          bnd (print_json (JObj [(''error'', JStr ''IR learning timeout'')])) (\<lambda>u. sys_exit 1)))
       (\<lambda>e. bnd (print_json (JObj [(''error'', JStr (str e))])) (\<lambda>u. sys_exit 1)))
       [Call Auth, Call EnterLearning]"
proof -
  let ?argv = "[''broadlink_bridge.py'', ''learn'', ''192.168.1.20'', ''a0:43:b0:11:22:33'', ''0x2737'', ''microwave'']"
  have l: "py_lower ''learn'' = ''learn''" "py_lower ''microwave'' \<noteq> ''rf''"
    by (simp_all add: py_lower_def py_lower_char_def)
  have len: "5 \<le> length ?argv" by simp
  have cmd: "py_lower (?argv ! 1) = ''learn''" using l by simp
  have st: "py_lower (if length ?argv > 5 then ?argv ! 5 else ''ir'') \<noteq> ''rf''" using l by simp
  have md: "make_device (fixed_runtime remote_device) (?argv ! 2) (?argv ! 3) (?argv ! 4) = Inr remote_device \<and>
      auth remote_device = Inr ()"
    using make_device_fixed [of remote_device] by (simp add: remote_device_def quiet_device_def)
  have el: "make_device (fixed_runtime remote_device) (?argv ! 2) (?argv ! 3) (?argv ! 4) = Inr remote_device \<and>
      auth remote_device = Inr () \<and> enter_learning remote_device = Inr ()"
    using md by (simp add: remote_device_def quiet_device_def)
  have args: "?argv ! 2 = ''192.168.1.20''" "?argv ! 3 = ''a0:43:b0:11:22:33''" "?argv ! 4 = ''0x2737''"
    by simp_all
  from learn_signal_class [OF len cmd, where R = "fixed_runtime remote_device" and dev = remote_device] st md el
  have "main (fixed_runtime remote_device) ?argv =
       learn (fixed_runtime remote_device) (?argv ! 2) (?argv ! 3) (?argv ! 4) ''ir'' \<and>
     Call SweepFrequency \<notin> set (snd (main (fixed_runtime remote_device) ?argv [])) \<and>
     take 2 (snd (main (fixed_runtime remote_device) ?argv [])) = [Call Auth, Call EnterLearning] \<and>
     main (fixed_runtime remote_device) ?argv [] =
       def_body (try_except
         (bnd (poll_data 30 remote_device) (\<lambda>u.
            bnd (print_json (JObj [(''error'', JStr ''IR learning timeout'')])) (\<lambda>u. sys_exit 1)))
         (\<lambda>e. bnd (print_json (JObj [(''error'', JStr (str e))])) (\<lambda>u. sys_exit 1)))
         [Call Auth, Call EnterLearning]"
    by blast
  then show ?thesis unfolding args .
qed

subsection \<open>The \<open>open\<close> command of the presentation bridge\<close>

lemma respond_simple:
  "respond success None [] tr = (Inr (), tr @ [Print (JObj [(''success'', JBool success)])])"
  by (simp add: respond_def print_json_def)

lemma respond_error:
  "e \<noteq> [] \<Longrightarrow> respond success (Some e) [] tr =
     (Inr (), tr @ [Print (JObj [(''success'', JBool success), (''error'', JStr e)])])"
  by (simp add: respond_def print_json_def)

lemma respond_data:
  "respond success None [(''data'', j)] tr =
     (Inr (), tr @ [Print (JObj [(''success'', JBool success), (''data'', j)])])"
  by (simp add: respond_def print_json_def)

lemma handle_command_open:
  "command d = Some ''open'' \<Longrightarrow> handle_command W d = def_body (handle_open W d)"
  by (simp add: handle_command_def dict_get_def)

text \<open>
  C8. For \<open>open\<close>, when the path does not exist, the command checks the path,
  prints \<open>success: false\<close> with "File not found: " and the path, and returns. Nothing
  else happens: no session is resolved and nothing is launched.
\<close>

theorem open_missing_file:
  assumes "command d = Some ''open''"
    and "\<not> path_exists W (dict_get (file_path d) [])"
  shows "handle_command W d tr =
     (Inr (), tr @ [Call (PathExists (dict_get (file_path d) [])),
        Print (JObj [(''success'', JBool False),
                     (''error'', JStr (''File not found: '' @ dict_get (file_path d) []))])])"
  using assms
  by (simp add: handle_command_open handle_open_def Let_def os_path_exists_def respond_error prog_defs)

theorem open_missing_file_witness:
  "handle_command stage_office (open_request ''/home/user/missing.odp'') [] =
     (Inr (), [Call (PathExists ''/home/user/missing.odp''),
        Print (JObj [(''success'', JBool False),
                     (''error'', JStr ''File not found: /home/user/missing.odp'')])])"
proof -
  have h: "command (open_request ''/home/user/missing.odp'') = Some ''open''"
    "\<not> path_exists stage_office (dict_get (file_path (open_request ''/home/user/missing.odp'')) [])"
    by (simp_all add: open_request_def path_exists_def stage_office_def dict_get_def)
  show ?thesis
    using open_missing_file [OF h, of "[]"] by (simp add: open_request_def dict_get_def)
qed

lemma launch_cmd:
  "p \<noteq> [] \<Longrightarrow>
   launch_libreoffice_with_socket W (Some p) tr =
     (let cmd = [''soffice'', ''--impress'', ''--accept=socket,host=localhost,port=2002;urp;'', p]
      in (Inr (case popen W cmd (count_list tr (Call (Popen cmd))) of Inl e \<Rightarrow> False | Inr u \<Rightarrow> True),
          tr @ [Call (Popen cmd)]))"
  by (simp add: launch_libreoffice_with_socket_def UNO_PORT_def digit_char_def prog_defs Let_def
      split: sum.splits)

text \<open>
  C7. For \<open>open\<close> with an existing path and no UNO context, the command starts
  \<open>soffice\<close> with the Impress flag, the socket flag and the path as its arguments.
  When \<open>Popen\<close> returns, the response is \<open>success: true\<close> and nothing is asked of
  the application afterwards; when \<open>Popen\<close> raises, the response is \<open>success: false\<close>
  with "Failed to launch LibreOffice".
\<close>

theorem open_without_session:
  assumes "command d = Some ''open''"
    and "dict_get (file_path d) [] = path" and "path_exists W path"
    and "get_uno_context W (tr @ [Call (PathExists path)]) = (Inr False, tr')"
    and "cmd = [''soffice'', ''--impress'', ''--accept=socket,host=localhost,port=2002;urp;'', path]"
  shows "(popen W cmd (count_list tr' (Call (Popen cmd))) = Inr () \<longrightarrow>
      handle_command W d tr =
        (Inr (), tr' @ [Call (Popen cmd), Print (JObj [(''success'', JBool True)])])) \<and>
     (popen W cmd (count_list tr' (Call (Popen cmd))) = Inl e \<longrightarrow>
      handle_command W d tr =
        (Inr (), tr' @ [Call (Popen cmd),
           Print (JObj [(''success'', JBool False), (''error'', JStr ''Failed to launch LibreOffice'')])]))"
proof -
  have p: "path \<noteq> []" using assms(3) by (simp add: path_exists_def)
  show ?thesis
    using assms p
    by (simp add: handle_command_open handle_open_def Let_def os_path_exists_def respond_error
        respond_simple launch_cmd ret_def bnd_def lift_def call_def py_return_def def_body_def)
qed

theorem open_without_session_witness:
  "handle_command offline_office (open_request ''/home/user/sermon.odp'') [] =
     (Inr (), [Call (PathExists ''/home/user/sermon.odp''), Call Resolve,
        Call (Popen [''soffice'', ''--impress'', ''--accept=socket,host=localhost,port=2002;urp;'',
                     ''/home/user/sermon.odp'']),
        Print (JObj [(''success'', JBool True)])]) \<and>
   handle_command (offline_office\<lparr>popen := (\<lambda>cmd k. Inl (Exn OtherException ''soffice: not found''))\<rparr>)
       (open_request ''/home/user/sermon.odp'') [] =
     (Inr (), [Call (PathExists ''/home/user/sermon.odp''), Call Resolve,
        Call (Popen [''soffice'', ''--impress'', ''--accept=socket,host=localhost,port=2002;urp;'',
                     ''/home/user/sermon.odp'']),
        Print (JObj [(''success'', JBool False), (''error'', JStr ''Failed to launch LibreOffice'')])])"
proof -
  let ?p = "''/home/user/sermon.odp''"
  let ?cmd = "[''soffice'', ''--impress'', ''--accept=socket,host=localhost,port=2002;urp;'', ?p]"
  let ?W2 = "offline_office\<lparr>popen := (\<lambda>cmd k. Inl (Exn OtherException ''soffice: not found''))\<rparr>"
  have c: "command (open_request ?p) = Some ''open''" "dict_get (file_path (open_request ?p)) [] = ?p"
    by (simp_all add: open_request_def dict_get_def)
  have e: "path_exists offline_office ?p" "path_exists ?W2 ?p"
    by (simp_all add: path_exists_def offline_office_def stage_office_def)
  have u: "get_uno_context offline_office ([] @ [Call (PathExists ?p)]) =
             (Inr False, [Call (PathExists ?p), Call Resolve])"
    "get_uno_context ?W2 ([] @ [Call (PathExists ?p)]) = (Inr False, [Call (PathExists ?p), Call Resolve])"
    by (simp_all add: get_uno_context_def offline_office_def stage_office_def prog_defs)
  have po: "popen offline_office ?cmd (count_list [Call (PathExists ?p), Call Resolve] (Call (Popen ?cmd))) = Inr ()"
    "popen ?W2 ?cmd (count_list [Call (PathExists ?p), Call Resolve] (Call (Popen ?cmd))) =
       Inl (Exn OtherException ''soffice: not found'')"
    by (simp_all add: offline_office_def stage_office_def)
  from open_without_session [OF c e(1) u(1) refl, of "Exn OtherException ''soffice: not found''"]
    open_without_session [OF c e(2) u(2) refl, of "Exn OtherException ''soffice: not found''"] po
  show ?thesis by simp
qed

subsection \<open>The \<open>get_status\<close> command\<close>

lemma printed_append [simp]: "printed (xs @ ys) = printed xs @ printed ys"
  by (simp add: printed_def)

lemma printed_Cons [simp]:
  "printed (Print j # xs) = j # printed xs"
  "printed (Call c # xs) = printed xs"
  "printed (Sleep ms # xs) = printed xs"
  "printed [] = []"
  by (simp_all add: printed_def)

lemma respond_failure:
  "respond False (Some (str e)) [] tr = (Inr (), tr @ [Print (status_failure e)])"
  by (simp add: respond_def print_json_def status_failure_def)

lemma respond_status:
  "respond True None [(''data'', status_data sa cs ts bl)] tr =
     (Inr (), tr @ [Print (status_success sa cs ts bl)])"
  by (simp add: respond_def print_json_def status_success_def)

text \<open>
  The two lookups never raise: they answer \<open>True\<close> only when every call they make
  returns an object (and, for the controller, the slideshow runs).
\<close>

lemma get_presentation_eval:
  "get_presentation W tr =
     (if getCurrentComponent W (count_list tr (Call GetCurrentComponent)) = Inr True
      then (Inr (getPresentation W (count_list tr (Call GetPresentation)) = Inr True),
            tr @ [Call GetCurrentComponent, Call GetPresentation])
      else (Inr False, tr @ [Call GetCurrentComponent]))"
  by (auto simp: get_presentation_def prog_defs split: sum.splits)

lemma get_slideshow_controller_eval:
  "get_slideshow_controller W tr =
     (if getCurrentComponent W (count_list tr (Call GetCurrentComponent)) \<noteq> Inr True
      then (Inr False, tr @ [Call GetCurrentComponent])
      else if getPresentation W (count_list tr (Call GetPresentation)) \<noteq> Inr True
      then (Inr False, tr @ [Call GetCurrentComponent, Call GetPresentation])
      else if isRunning W (count_list tr (Call IsRunning)) \<noteq> Inr True
      then (Inr False, tr @ [Call GetCurrentComponent, Call GetPresentation, Call IsRunning])
      else (Inr (getController W (count_list tr (Call GetController)) = Inr True),
            tr @ [Call GetCurrentComponent, Call GetPresentation, Call IsRunning, Call GetController]))"
  by (auto simp: get_slideshow_controller_def prog_defs split: sum.splits)

lemma handle_command_get_status:
  assumes "command d = Some ''get_status''" and "HAS_UNO W" and "resolve W 0 = Inr ()"
    and "createDesktop W 0 = Inr ()"
  shows "handle_command W d [] = def_body (handle_get_status W) [Call Resolve, Call CreateDesktop]"
  using assms
  by (simp add: handle_command_def Let_def dict_get_def get_uno_context_def get_desktop_def prog_defs)

lemma def_body_normal: "fst (m tr) = Inr u \<Longrightarrow> def_body m tr = m tr"
  by (cases "m tr") (simp add: def_body_def)

lemma get_status_run_response:
  "fst (handle_get_status W [Call Resolve, Call CreateDesktop]) = Inr () \<and>
   printed (snd (handle_get_status W [Call Resolve, Call CreateDesktop])) =
     [case getCurrentComponent W 0 of
        Inl e \<Rightarrow> status_failure e
      | Inr doc \<Rightarrow>
          if \<not> doc then status_success False None None False
          else
            let total_slides = (case getDrawPagesCount W 0 of Inl e \<Rightarrow> None | Inr n \<Rightarrow> Some n) in
            if \<not> (getCurrentComponent W 1 = Inr True \<and> getPresentation W 0 = Inr True)
            then status_success False None total_slides False
            else
              (case isRunning W 0 of
                 Inl e \<Rightarrow> status_failure e
               | Inr running \<Rightarrow>
                   if \<not> running then status_success False None total_slides False
                   else if \<not> (getCurrentComponent W 2 = Inr True \<and> getPresentation W 1 = Inr True \<and>
                              isRunning W 1 = Inr True \<and> getController W 0 = Inr True)
                   then status_success True None total_slides False
                   else
                     (case getCurrentSlideIndex W 0 of
                        Inl e \<Rightarrow> status_failure e
                      | Inr i \<Rightarrow>
                          (case isPaused W 0 of
                             Inl e \<Rightarrow> status_failure e
                           | Inr blanked \<Rightarrow>
                               status_success True (Some (i + 1)) total_slides blanked)))]"
  by (simp add: handle_get_status_def get_presentation_eval get_slideshow_controller_eval
      respond_failure respond_status ret_def bnd_def lift_def call_def call_idx_def
      try_except_on_def try_except_def Let_def numeral_2_eq_2 split: sum.splits)

text \<open>
  C3, as the code has it. For \<open>get_status\<close> with a UNO context and a desktop, the
  command returns and prints exactly one line, decided by the reads in the order the
  code makes them. Only the page count has a handler of its own.
  \<^item> The document read raises: \<open>success: false\<close>. No document: \<open>success: true\<close> with
    the data record at its defaults (inactive, both counts null, not blanked).
  \<^item> With a document, \<open>total_slides\<close> is the page count, or null when that read raises.
  \<^item> \<open>get_presentation\<close> finds no presentation (its document read or its
    presentation read raises or gives \<open>None\<close>): \<open>success: true\<close>, inactive.
  \<^item> The running check of \<open>get_status\<close> raises: \<open>success: false\<close>. It answers
    false: \<open>success: true\<close>, inactive.
  \<^item> \<open>get_slideshow_controller\<close> finds no controller (one of its four reads raises
    or gives \<open>None\<close> or false): \<open>success: true\<close>, active, \<open>current_slide\<close> null.
  \<^item> The position read or the paused read raises: \<open>success: false\<close>. Otherwise
    \<open>success: true\<close>, active, with the position plus one and the paused flag.
  A \<open>success: false\<close> line carries \<open>str(e)\<close> as its error when that text is not empty,
  and no error field when it is.
\<close>

theorem get_status_best_effort:
  assumes "command d = Some ''get_status''" and "HAS_UNO W" and "resolve W 0 = Inr ()"
    and "createDesktop W 0 = Inr ()"
  shows "fst (handle_command W d []) = Inr () \<and>
   printed (snd (handle_command W d [])) =
     [case getCurrentComponent W 0 of
        Inl e \<Rightarrow> status_failure e
      | Inr doc \<Rightarrow>
          if \<not> doc then status_success False None None False
          else
            let total_slides = (case getDrawPagesCount W 0 of Inl e \<Rightarrow> None | Inr n \<Rightarrow> Some n) in
            if \<not> (getCurrentComponent W 1 = Inr True \<and> getPresentation W 0 = Inr True)
            then status_success False None total_slides False
            else
              (case isRunning W 0 of
                 Inl e \<Rightarrow> status_failure e
               | Inr running \<Rightarrow>
                   if \<not> running then status_success False None total_slides False
                   else if \<not> (getCurrentComponent W 2 = Inr True \<and> getPresentation W 1 = Inr True \<and>
                              isRunning W 1 = Inr True \<and> getController W 0 = Inr True)
                   then status_success True None total_slides False
                   else
                     (case getCurrentSlideIndex W 0 of
                        Inl e \<Rightarrow> status_failure e
                      | Inr i \<Rightarrow>
                          (case isPaused W 0 of
                             Inl e \<Rightarrow> status_failure e
                           | Inr blanked \<Rightarrow>
                               status_success True (Some (i + 1)) total_slides blanked)))]"
proof -
  have run: "handle_command W d [] = handle_get_status W [Call Resolve, Call CreateDesktop]"
    using handle_command_get_status [OF assms] get_status_run_response [of W]
    by (simp add: def_body_normal)
  show ?thesis
    unfolding run by (rule get_status_run_response)
qed

theorem get_status_best_effort_witness:
  "fst (handle_command uncounted_office status_request []) = Inr () \<and>
   printed (snd (handle_command uncounted_office status_request [])) =
     [JObj [(''success'', JBool True),
        (''data'', JObj [(''slideshow_active'', JBool True), (''current_slide'', JInt 3),
                         (''total_slides'', JNull), (''blanked'', JBool False)])]] \<and>
   printed (snd (handle_command broken_office status_request [])) =
     [JObj [(''success'', JBool False), (''error'', JStr ''Object disposed'')]] \<and>
   printed (snd (handle_command
       (stage_office\<lparr>isRunning := (\<lambda>k. Inl (Exn OtherException []))\<rparr>) status_request [])) =
     [JObj [(''success'', JBool False)]] \<and>
   printed (snd (handle_command
       (stage_office\<lparr>getController := (\<lambda>k. Inr False)\<rparr>) status_request [])) =
     [JObj [(''success'', JBool True),
        (''data'', JObj [(''slideshow_active'', JBool True), (''current_slide'', JNull),
                         (''total_slides'', JInt 12), (''blanked'', JBool False)])]]"
proof -
  have c: "command status_request = Some ''get_status''"
    by (simp add: status_request_def)
  have h1: "HAS_UNO uncounted_office" "resolve uncounted_office 0 = Inr ()"
    "createDesktop uncounted_office 0 = Inr ()"
    by (simp_all add: uncounted_office_def stage_office_def)
  have h2: "HAS_UNO broken_office" "resolve broken_office 0 = Inr ()"
    "createDesktop broken_office 0 = Inr ()"
    by (simp_all add: broken_office_def stage_office_def)
  have h3: "HAS_UNO (stage_office\<lparr>isRunning := (\<lambda>k. Inl (Exn OtherException []))\<rparr>)"
    "resolve (stage_office\<lparr>isRunning := (\<lambda>k. Inl (Exn OtherException []))\<rparr>) 0 = Inr ()"
    "createDesktop (stage_office\<lparr>isRunning := (\<lambda>k. Inl (Exn OtherException []))\<rparr>) 0 = Inr ()"
    by (simp_all add: stage_office_def)
  have h4: "HAS_UNO (stage_office\<lparr>getController := (\<lambda>k. Inr False)\<rparr>)"
    "resolve (stage_office\<lparr>getController := (\<lambda>k. Inr False)\<rparr>) 0 = Inr ()"
    "createDesktop (stage_office\<lparr>getController := (\<lambda>k. Inr False)\<rparr>) 0 = Inr ()"
    by (simp_all add: stage_office_def)
  show ?thesis
    using get_status_best_effort [OF c h1] get_status_best_effort [OF c h2]
      get_status_best_effort [OF c h3] get_status_best_effort [OF c h4]
    by (simp add: uncounted_office_def broken_office_def stage_office_def status_success_def
        status_failure_def status_data_def json_of_int_option_def)
qed

text \<open>
  C3 as stated also covers a failing position read. With a context, a desktop, a
  document and a running slideshow, a position read that raises sends the command to its
  outer handler, and the response is \<open>success: false\<close> with the error text.
\<close>

theorem get_status_failure_counterexample:
  "get_uno_context broken_office [] = (Inr True, [Call Resolve]) \<and>
   handle_command broken_office status_request [] =
     (Inr (), [Call Resolve, Call CreateDesktop, Call GetCurrentComponent, Call GetDrawPagesCount,
        Call GetCurrentComponent, Call GetPresentation, Call IsRunning,
        Call GetCurrentComponent, Call GetPresentation, Call IsRunning, Call GetController,
        Call GetCurrentSlideIndex,
        Print (JObj [(''success'', JBool False), (''error'', JStr ''Object disposed'')])])"
  by (simp add: handle_command_def Let_def dict_get_def get_uno_context_def get_desktop_def
      handle_get_status_def get_presentation_def get_slideshow_controller_def respond_def
      status_data_def json_of_int_option_def broken_office_def stage_office_def
      status_request_def prog_defs)

end
